theory Spec2Isabelle
  imports Main
begin

section \<open>Worker manager (process.c)\<close>

subsection \<open>Data model of process.h and system.h\<close>

datatype process_error_t =
    PROCESS_OK
  | PROCESS_ERROR_FORK
  | PROCESS_ERROR_EVENTFD
  | PROCESS_ERROR_WAIT
  | PROCESS_ERROR_INVALID_PARAM
  | PROCESS_ERROR_SIGNAL

datatype process_type_t = PROCESS_TYPE_PARENT | PROCESS_TYPE_WORKER

datatype system_error_t =
    SYSTEM_OK
  | SYSTEM_ERROR_CPU_COUNT
  | SYSTEM_ERROR_AFFINITY
  | SYSTEM_ERROR_MEMORY
  | SYSTEM_ERROR_INVALID_PARAM

text \<open>
  A C pointer to an array: null, pointing at a block that has been freed, or pointing at
  a live block whose cells are the given list.
\<close>

datatype 'a c_ptr = Null_ptr | Freed_ptr | Points_to "'a list"

record worker_context_t =
  worker_id :: int
  cpu_id :: int
  eventfd :: int
  pid :: int

record worker_config_t =
  worker_count :: int
  cpu_ids :: "int c_ptr"
  enable_affinity :: bool

record worker_manager_t =
  config :: worker_config_t
  workers :: "worker_context_t c_ptr"
  type :: process_type_t
  current_worker_id :: int

subsection \<open>Role and slot accessors\<close>

text \<open>
  A manager argument is a pointer: \<open>None\<close> is the null pointer. A result \<open>None\<close> of
  \<open>worker_manager_get_cpu_id\<close> stands for the undefined behaviour of reading
  \<open>manager->workers[worker_id]\<close> outside a live array.
\<close>

definition worker_manager_get_type :: "worker_manager_t option \<Rightarrow> process_type_t" where
  "worker_manager_get_type manager =
     (case manager of None \<Rightarrow> PROCESS_TYPE_PARENT | Some m \<Rightarrow> type m)"

definition worker_manager_get_worker_id :: "worker_manager_t option \<Rightarrow> int" where
  "worker_manager_get_worker_id manager =
     (case manager of
        None \<Rightarrow> - 1
      | Some m \<Rightarrow>
          if type m \<noteq> PROCESS_TYPE_WORKER then - 1 else current_worker_id m)"

definition worker_manager_get_cpu_id :: "worker_manager_t option \<Rightarrow> int option" where
  "worker_manager_get_cpu_id manager =
     (case manager of
        None \<Rightarrow> Some (- 1)
      | Some m \<Rightarrow>
          if type m \<noteq> PROCESS_TYPE_WORKER then Some (- 1)
          else
            let worker_id = current_worker_id m in
            if worker_id < 0 \<or> worker_id \<ge> worker_count (config m) then Some (- 1)
            else
              (case workers m of
                 Points_to ws \<Rightarrow>
                   if nat worker_id < length ws then Some (cpu_id (ws ! nat worker_id))
                   else None
               | _ \<Rightarrow> None))"

subsection \<open>The operating system as seen by one process\<close>

text \<open>
  Every call that leaves the program is recorded, in program order, as an event. The
  answers of the operating system are not computed by the program; they are read from an
  environment \<open>os_env\<close>, one answer for each call site and loop iteration, so that a
  statement quantified over all environments covers every behaviour of the kernel.
  A process that is the child of the \<open>fork\<close> of iteration \<open>i\<close> is the run whose
  environment answers \<open>0\<close> to that \<open>fork\<close>. Every call is answered: a blocking call
  that never returns (a worker that never signals) is not among the runs described.
\<close>

datatype event =
    Sys_signal_ignore_sigpipe
  | Sys_malloc nat
  | Sys_free
  | Sys_eventfd int
  | Sys_fork int
  | Sys_eventfd_read int int
  | Sys_eventfd_write int int
  | Sys_close int
  | Sys_sched_setaffinity int int
  | Sys_wait int
  | Log_info_worker_running int int int
  | Log_info_running_with int
  | Log_error_worker_exited int

record os_env =
  malloc_result :: "nat \<Rightarrow> bool"
  eventfd_result :: "nat \<Rightarrow> int"
  fork_result :: "nat \<Rightarrow> int"
  eventfd_read_result :: "nat \<Rightarrow> int"
  eventfd_write_result :: "int \<Rightarrow> int"
  sched_setaffinity_result :: "int \<Rightarrow> int"
  wait_result :: int

definition sizeof_int :: nat where
  "sizeof_int = 4"

definition sizeof_worker_context_t :: nat where
  "sizeof_worker_context_t = 16"

text \<open>system.c: \<open>system_init\<close> with its static flag \<open>system_initialized\<close>.\<close>

definition system_init :: "bool \<Rightarrow> system_error_t \<times> bool \<times> event list" where
  "system_init system_initialized =
     (if system_initialized then (SYSTEM_OK, system_initialized, [])
      else (SYSTEM_OK, True, [Sys_signal_ignore_sigpipe]))"

text \<open>
  system.c: \<open>system_malloc\<close>; the result \<open>True\<close> is a non-null pointer. The argument
  \<open>k\<close> numbers the allocation within the calling function.
\<close>

definition system_malloc :: "os_env \<Rightarrow> nat \<Rightarrow> nat \<Rightarrow> bool \<times> event list" where
  "system_malloc os k sz =
     (if sz = 0 then (False, [])
      else (malloc_result os k, [Sys_malloc sz]))"

definition system_set_cpu_affinity :: "os_env \<Rightarrow> int \<Rightarrow> system_error_t \<times> event list" where
  "system_set_cpu_affinity os cpu =
     (let r = sched_setaffinity_result os cpu in
      if r = - 1 then (SYSTEM_ERROR_AFFINITY, [Sys_sched_setaffinity cpu r])
      else (SYSTEM_OK, [Sys_sched_setaffinity cpu r]))"

subsection \<open>worker_manager_init\<close>

definition zero_worker_context :: worker_context_t where
  "zero_worker_context = \<lparr>worker_id = 0, cpu_id = 0, eventfd = 0, pid = 0\<rparr>"

definition zero_worker_manager :: worker_manager_t where
  "zero_worker_manager =
     \<lparr>config = \<lparr>worker_count = 0, cpu_ids = Null_ptr, enable_affinity = False\<rparr>,
      workers = Null_ptr, type = PROCESS_TYPE_PARENT, current_worker_id = 0\<rparr>"

text \<open>
  The result is \<open>None\<close> when \<open>memcpy\<close> reads \<open>worker_count\<close> cells from a caller's
  array that is freed or shorter (undefined behaviour). Otherwise it is the return code,
  the manager as left behind, the flag \<open>system_initialized\<close> and the events.
\<close>

definition worker_manager_init ::
  "os_env \<Rightarrow> bool \<Rightarrow> worker_manager_t option \<Rightarrow> worker_config_t option \<Rightarrow>
     (process_error_t \<times> worker_manager_t option \<times> bool \<times> event list) option" where
  "worker_manager_init os system_initialized manager cfg =
     (case (manager, cfg) of
        (Some m, Some c) \<Rightarrow>
          if worker_count c \<le> 0 \<or> cpu_ids c = Null_ptr
          then Some (PROCESS_ERROR_INVALID_PARAM, Some m, system_initialized, [])
          else
            (case system_init system_initialized of (sys_err, inited, tr0) \<Rightarrow>
               if sys_err \<noteq> SYSTEM_OK
               then Some (PROCESS_ERROR_INVALID_PARAM, Some m, inited, tr0)
               else
                 let n = nat (worker_count c);
                     m1 = zero_worker_manager
                            \<lparr>config := \<lparr>worker_count = worker_count c, cpu_ids = Null_ptr,
                                          enable_affinity = enable_affinity c\<rparr>\<rparr>
                 in
                 (case system_malloc os 0 (n * sizeof_int) of (ok1, tr1) \<Rightarrow>
                    if \<not> ok1
                    then Some (PROCESS_ERROR_INVALID_PARAM, Some m1, inited, tr0 @ tr1)
                    else
                      (case cpu_ids c of
                         Points_to cs \<Rightarrow>
                           if n \<le> length cs then
                             let m2 = m1\<lparr>config := (config m1)\<lparr>cpu_ids := Points_to (take n cs)\<rparr>\<rparr>
                             in
                             (case system_malloc os 1 (n * sizeof_worker_context_t) of
                                (ok2, tr2) \<Rightarrow>
                                  if \<not> ok2
                                  then Some (PROCESS_ERROR_INVALID_PARAM,
                                             Some (m2\<lparr>config := (config m2)\<lparr>cpu_ids := Freed_ptr\<rparr>\<rparr>),
                                             inited, tr0 @ tr1 @ tr2 @ [Sys_free])
                                  else
                                    Some (PROCESS_OK,
                                          Some (m2\<lparr>workers := Points_to (replicate n zero_worker_context),
                                                    type := PROCESS_TYPE_PARENT,
                                                    current_worker_id := - 1\<rparr>),
                                          inited, tr0 @ tr1 @ tr2))
                           else None
                       | _ \<Rightarrow> None)))
      | _ \<Rightarrow> Some (PROCESS_ERROR_INVALID_PARAM, manager, system_initialized, []))"

subsection \<open>worker_manager_fork_workers\<close>

text \<open>
  The inner loop of the child: \<open>for (j = 0; j < i; j++)\<close>, closing every handle of an
  earlier slot that is recorded as open.
\<close>

function close_parent_handles ::
  "worker_context_t list \<Rightarrow> nat \<Rightarrow> nat \<Rightarrow> event list \<Rightarrow> worker_context_t list \<times> event list" where
  "close_parent_handles ws j i tr =
     (if j < i then
        (if eventfd (ws ! j) > 0
         then close_parent_handles (ws[j := (ws ! j)\<lparr>eventfd := - 1\<rparr>]) (Suc j) i
                (tr @ [Sys_close (eventfd (ws ! j))])
         else close_parent_handles ws (Suc j) i tr)
      else (ws, tr))"
  by pat_completeness auto
termination
  by (relation "measure (\<lambda>(ws, j, i, tr). i - j)") auto

declare close_parent_handles.simps [simp del]

text \<open>
  The \<open>else\<close> branch taken after \<open>fork\<close> by the child of iteration \<open>i\<close>. \<open>None\<close> is the
  undefined behaviour of indexing \<open>cpu_ids\<close> or \<open>workers\<close> outside a live array.
\<close>

definition worker_branch ::
  "os_env \<Rightarrow> worker_manager_t \<Rightarrow> nat \<Rightarrow> int \<Rightarrow> event list \<Rightarrow>
     (process_error_t \<times> worker_manager_t \<times> event list) option" where
  "worker_branch os m i efd tr =
     (let m1 = m\<lparr>type := PROCESS_TYPE_WORKER, current_worker_id := int i\<rparr> in
      case cpu_ids (config m1) of
        Points_to cs \<Rightarrow>
          if i < length cs then
            let aff = (if enable_affinity (config m1)
                       then system_set_cpu_affinity os (cs ! i)
                       else (SYSTEM_OK, []))
            in
            if fst aff \<noteq> SYSTEM_OK
            then Some (PROCESS_ERROR_INVALID_PARAM, m1, tr @ snd aff @ [Sys_close efd])
            else
              (case workers m1 of
                 Points_to ws \<Rightarrow>
                   if i < length ws then
                     (case close_parent_handles
                             (ws[i := (ws ! i)\<lparr>eventfd := efd, cpu_id := cs ! i\<rparr>]) 0 i
                             (tr @ snd aff) of
                        (ws', tr') \<Rightarrow>
                          Some (PROCESS_OK, m1\<lparr>workers := Points_to ws'\<rparr>, tr'))
                   else None
               | _ \<Rightarrow> None)
          else None
      | _ \<Rightarrow> None)"

text \<open>
  The loop \<open>for (i = 0; i < manager->config.worker_count; i++)\<close>, from iteration \<open>i\<close>
  on, with the events so far.
\<close>

function worker_manager_fork_loop ::
  "os_env \<Rightarrow> worker_manager_t \<Rightarrow> nat \<Rightarrow> event list \<Rightarrow>
     (process_error_t \<times> worker_manager_t \<times> event list) option" where
  "worker_manager_fork_loop os m i tr =
     (if int i < worker_count (config m) then
        let efd = eventfd_result os i in
        if efd = - 1 then Some (PROCESS_ERROR_EVENTFD, m, tr @ [Sys_eventfd efd])
        else
          let p = fork_result os i in
          if p = - 1
          then Some (PROCESS_ERROR_FORK, m, tr @ [Sys_eventfd efd, Sys_fork p, Sys_close efd])
          else if p > 0 then
            (case (workers m, cpu_ids (config m)) of
               (Points_to ws, Points_to cs) \<Rightarrow>
                 if i < length ws \<and> i < length cs then
                   let r = eventfd_read_result os i;
                       w = \<lparr>worker_id = int i, cpu_id = cs ! i, eventfd = efd, pid = p\<rparr>
                   in
                   if r = - 1
                   then Some (PROCESS_ERROR_EVENTFD, m\<lparr>workers := Points_to (ws[i := w])\<rparr>,
                              tr @ [Sys_eventfd efd, Sys_fork p, Sys_eventfd_read efd r,
                                    Sys_close efd])
                   else
                     worker_manager_fork_loop os
                       (m\<lparr>workers := Points_to (ws[i := w\<lparr>eventfd := - 1\<rparr>])\<rparr>) (Suc i)
                       (tr @ [Sys_eventfd efd, Sys_fork p, Sys_eventfd_read efd r,
                              Sys_close efd, Log_info_worker_running (int i) (cs ! i) p])
                 else None
             | _ \<Rightarrow> None)
          else worker_branch os m i efd (tr @ [Sys_eventfd efd, Sys_fork p])
      else Some (PROCESS_OK, m, tr @ [Log_info_running_with (worker_count (config m))]))"
  by pat_completeness auto
termination
  by (relation "measure (\<lambda>(os, m, i, tr). nat (worker_count (config m)) - i)") auto

declare worker_manager_fork_loop.simps [simp del]

definition worker_manager_fork_workers ::
  "os_env \<Rightarrow> worker_manager_t option \<Rightarrow>
     (process_error_t \<times> worker_manager_t option \<times> event list) option" where
  "worker_manager_fork_workers os manager =
     (case manager of
        None \<Rightarrow> Some (PROCESS_ERROR_INVALID_PARAM, None, [])
      | Some m \<Rightarrow>
          (case worker_manager_fork_loop os m 0 [] of
             None \<Rightarrow> None
           | Some (e, m', tr) \<Rightarrow> Some (e, Some m', tr)))"

subsection \<open>The events of the parent's handshakes\<close>

text \<open>
  The cells behind a pointer; no cells behind a null or freed pointer.
\<close>

fun cells :: "'a c_ptr \<Rightarrow> 'a list" where
  "cells (Points_to xs) = xs"
| "cells _ = []"

text \<open>
  Iteration \<open>j\<close> completes in the parent when the channel is created, \<open>fork\<close> returns
  a child's process id and the blocking read on the channel returns.
\<close>

definition spawned :: "os_env \<Rightarrow> nat \<Rightarrow> bool" where
  "spawned os j \<longleftrightarrow>
     eventfd_result os j \<noteq> - 1 \<and> 0 < fork_result os j \<and> eventfd_read_result os j \<noteq> - 1"

text \<open>
  The events of the handshake for worker \<open>j\<close> as the specification orders them: the
  channel of slot \<open>j\<close> is created, the child is spawned, the parent awaits the signal
  on that channel, closes its handle and logs the worker.
\<close>

definition handshake :: "os_env \<Rightarrow> int list \<Rightarrow> nat \<Rightarrow> event list" where
  "handshake os cs j =
     [Sys_eventfd (eventfd_result os j),
      Sys_fork (fork_result os j),
      Sys_eventfd_read (eventfd_result os j) (eventfd_read_result os j),
      Sys_close (eventfd_result os j),
      Log_info_worker_running (int j) (cs ! j) (fork_result os j)]"

text \<open>The handshakes for the workers \<open>i, ..., k - 1\<close>, one after the other.\<close>

definition handshakes :: "os_env \<Rightarrow> int list \<Rightarrow> nat \<Rightarrow> nat \<Rightarrow> event list" where
  "handshakes os cs i k = concat (map (handshake os cs) [i..<k])"

fun is_fork :: "event \<Rightarrow> bool" where
  "is_fork (Sys_fork p) = True"
| "is_fork _ = False"

subsection \<open>worker_manager_signal_ready and worker_manager_wait_workers\<close>

definition worker_manager_signal_ready ::
  "os_env \<Rightarrow> worker_manager_t option \<Rightarrow>
     (process_error_t \<times> worker_manager_t option \<times> event list) option" where
  "worker_manager_signal_ready os manager =
     (case manager of
        None \<Rightarrow> Some (PROCESS_ERROR_INVALID_PARAM, None, [])
      | Some m \<Rightarrow>
          if type m \<noteq> PROCESS_TYPE_WORKER
          then Some (PROCESS_ERROR_INVALID_PARAM, Some m, [])
          else
            let worker_id = current_worker_id m in
            if worker_id < 0 \<or> worker_id \<ge> worker_count (config m)
            then Some (PROCESS_ERROR_INVALID_PARAM, Some m, [])
            else
              (case workers m of
                 Points_to ws \<Rightarrow>
                   if nat worker_id < length ws then
                     let efd = eventfd (ws ! nat worker_id) in
                     if efd \<le> 0 then Some (PROCESS_ERROR_INVALID_PARAM, Some m, [])
                     else
                       let r = eventfd_write_result os efd in
                       if r = - 1
                       then Some (PROCESS_ERROR_EVENTFD, Some m, [Sys_eventfd_write efd r])
                       else
                         Some (PROCESS_OK,
                               Some (m\<lparr>workers :=
                                         Points_to (ws[nat worker_id :=
                                                         (ws ! nat worker_id)\<lparr>eventfd := - 1\<rparr>])\<rparr>),
                               [Sys_eventfd_write efd r, Sys_close efd])
                   else None
               | _ \<Rightarrow> None))"

definition worker_manager_wait_workers ::
  "os_env \<Rightarrow> worker_manager_t option \<Rightarrow>
     process_error_t \<times> worker_manager_t option \<times> event list" where
  "worker_manager_wait_workers os manager =
     (case manager of
        None \<Rightarrow> (PROCESS_ERROR_INVALID_PARAM, None, [])
      | Some m \<Rightarrow>
          if type m \<noteq> PROCESS_TYPE_PARENT
          then (PROCESS_ERROR_INVALID_PARAM, Some m, [])
          else
            let p = wait_result os in
            if p = - 1 then (PROCESS_ERROR_WAIT, Some m, [Sys_wait p])
            else (PROCESS_OK, Some m, [Sys_wait p, Log_error_worker_exited p]))"

section \<open>Signal manager (signals.c)\<close>

subsection \<open>Data model of signals.h\<close>

text \<open>The signal numbers of \<open><signal.h>\<close> on Linux, the platform of \<open>eventfd\<close>.\<close>

definition SIGHUP :: int where "SIGHUP = 1"
definition SIGINT :: int where "SIGINT = 2"
definition SIGUSR1 :: int where "SIGUSR1 = 10"
definition SIGUSR2 :: int where "SIGUSR2 = 12"
definition SIGPIPE :: int where "SIGPIPE = 13"
definition SIGTERM :: int where "SIGTERM = 15"
definition SA_RESTART :: int where "SA_RESTART = 268435456"

datatype signal_error_t =
    SIGNAL_OK
  | SIGNAL_ERROR_INVALID_PARAM
  | SIGNAL_ERROR_SETUP
  | SIGNAL_ERROR_MEMORY

text \<open>
  A callback is a function pointer: \<open>None\<close> is null, \<open>Some c\<close> the callback \<open>c\<close>. The
  model does not run a callback; it records that it was invoked, and with which signal.
\<close>

type_synonym signal_callback_t = "nat option"

record signal_config_t =
  handle_sigterm :: bool
  handle_sigint :: bool
  handle_sighup :: bool
  handle_sigusr1 :: bool
  handle_sigusr2 :: bool
  handle_sigpipe :: bool

record signal_manager_t =
  sig_config :: signal_config_t
  sigterm_handler :: signal_callback_t
  sigint_handler :: signal_callback_t
  sighup_handler :: signal_callback_t
  sigusr1_handler :: signal_callback_t
  sigusr2_handler :: signal_callback_t
  shutdown_requested :: int
  reload_requested :: int

text \<open>What the kernel holds for one signal: the \<open>struct sigaction\<close> last installed.\<close>

datatype sighandler_t = SIG_DFL | SIG_IGN | Handler_signal_handler

record sigaction_t =
  sa_handler :: sighandler_t
  sa_mask :: "int set"
  sa_flags :: int

datatype sig_event =
    Callback_invoked nat int
  | Log_info_sigterm_received
  | Log_info_sigint_received
  | Log_info_sighup_received
  | Log_warn_unhandled_signal int
  | Log_error_setup_failed int
  | Log_error_restore_failed int
  | Log_debug_initialized
  | Log_debug_cleaned_up

text \<open>
  The state of the process as far as signals.c is concerned: the memory holding signal
  managers (by address), the static pointer \<open>global_signal_manager\<close>, the disposition
  of every signal, the signals for which the kernel refuses \<open>sigaction\<close>, and the events
  so far.
\<close>

record signal_state =
  managers :: "nat \<Rightarrow> signal_manager_t"
  global_signal_manager :: "nat option"
  disposition :: "int \<Rightarrow> sigaction_t"
  sigaction_refused :: "int \<Rightarrow> bool"
  sig_trace :: "sig_event list"

definition emit :: "sig_event \<Rightarrow> signal_state \<Rightarrow> signal_state" where
  "emit e s = s\<lparr>sig_trace := sig_trace s @ [e]\<rparr>"

definition zero_signal_manager :: signal_manager_t where
  "zero_signal_manager =
     \<lparr>sig_config = \<lparr>handle_sigterm = False, handle_sigint = False, handle_sighup = False,
                      handle_sigusr1 = False, handle_sigusr2 = False, handle_sigpipe = False\<rparr>,
      sigterm_handler = None, sigint_handler = None, sighup_handler = None,
      sigusr1_handler = None, sigusr2_handler = None,
      shutdown_requested = 0, reload_requested = 0\<rparr>"

subsection \<open>The handler and its installation\<close>

definition invoke :: "signal_callback_t \<Rightarrow> int \<Rightarrow> sig_event option \<Rightarrow> signal_state \<Rightarrow> signal_state" where
  "invoke callback signum otherwise s =
     (case callback of
        Some c \<Rightarrow> emit (Callback_invoked c signum) s
      | None \<Rightarrow> (case otherwise of Some e \<Rightarrow> emit e s | None \<Rightarrow> s))"

definition signal_handler :: "signal_state \<Rightarrow> int \<Rightarrow> signal_state" where
  "signal_handler s signum =
     (case global_signal_manager s of
        None \<Rightarrow> s
      | Some g \<Rightarrow>
          let m = managers s g in
          if signum = SIGTERM then
            invoke (sigterm_handler m) signum (Some Log_info_sigterm_received)
              (s\<lparr>managers := (managers s)(g := m\<lparr>shutdown_requested := 1\<rparr>)\<rparr>)
          else if signum = SIGINT then
            invoke (sigint_handler m) signum (Some Log_info_sigint_received)
              (s\<lparr>managers := (managers s)(g := m\<lparr>shutdown_requested := 1\<rparr>)\<rparr>)
          else if signum = SIGHUP then
            invoke (sighup_handler m) signum (Some Log_info_sighup_received)
              (s\<lparr>managers := (managers s)(g := m\<lparr>reload_requested := 1\<rparr>)\<rparr>)
          else if signum = SIGUSR1 then invoke (sigusr1_handler m) signum None s
          else if signum = SIGUSR2 then invoke (sigusr2_handler m) signum None s
          else if signum = SIGPIPE then s
          else emit (Log_warn_unhandled_signal signum) s)"

definition setup_signal_handler :: "signal_state \<Rightarrow> int \<Rightarrow> bool \<Rightarrow> signal_error_t \<times> signal_state" where
  "setup_signal_handler s signum enable =
     (if enable then
        let sa = \<lparr>sa_handler = Handler_signal_handler,
                  sa_mask = {SIGTERM, SIGINT, SIGHUP, SIGUSR1, SIGUSR2},
                  sa_flags = SA_RESTART\<rparr>
        in
        if sigaction_refused s signum
        then (SIGNAL_ERROR_SETUP, emit (Log_error_setup_failed signum) s)
        else (SIGNAL_OK, s\<lparr>disposition := (disposition s)(signum := sa)\<rparr>)
      else
        let sa = \<lparr>sa_handler = SIG_DFL, sa_mask = {}, sa_flags = 0\<rparr> in
        if sigaction_refused s signum
        then (SIGNAL_ERROR_SETUP, emit (Log_error_restore_failed signum) s)
        else (SIGNAL_OK, s\<lparr>disposition := (disposition s)(signum := sa)\<rparr>))"

subsection \<open>signal_manager_default_config, signal_manager_init, signal_manager_cleanup\<close>

definition signal_manager_default_config :: signal_config_t where
  "signal_manager_default_config =
     \<lparr>handle_sigterm = True, handle_sigint = True, handle_sighup = False,
      handle_sigusr1 = False, handle_sigusr2 = False, handle_sigpipe = True\<rparr>"

text \<open>One block \<open>if (manager->config.handle_x) { err = setup_signal_handler(X, true); ... }\<close>.\<close>

definition setup_if :: "bool \<Rightarrow> int \<Rightarrow> signal_state \<Rightarrow> signal_error_t \<times> signal_state" where
  "setup_if enabled signum s =
     (if enabled then setup_signal_handler s signum True else (SIGNAL_OK, s))"

definition signal_manager_init ::
  "signal_state \<Rightarrow> nat option \<Rightarrow> signal_config_t option \<Rightarrow> signal_error_t \<times> signal_state" where
  "signal_manager_init s manager cfg =
     (case manager of
        None \<Rightarrow> (SIGNAL_ERROR_INVALID_PARAM, s)
      | Some p \<Rightarrow>
          let c = (case cfg of Some c \<Rightarrow> c | None \<Rightarrow> signal_manager_default_config);
              s0 = s\<lparr>managers := (managers s)(p := zero_signal_manager\<lparr>sig_config := c\<rparr>),
                     global_signal_manager := Some p\<rparr>
          in
          (case setup_if (handle_sigterm c) SIGTERM s0 of (e1, s1) \<Rightarrow>
           if e1 \<noteq> SIGNAL_OK then (e1, s1) else
          (case setup_if (handle_sigint c) SIGINT s1 of (e2, s2) \<Rightarrow>
           if e2 \<noteq> SIGNAL_OK then (e2, s2) else
          (case setup_if (handle_sighup c) SIGHUP s2 of (e3, s3) \<Rightarrow>
           if e3 \<noteq> SIGNAL_OK then (e3, s3) else
          (case setup_if (handle_sigusr1 c) SIGUSR1 s3 of (e4, s4) \<Rightarrow>
           if e4 \<noteq> SIGNAL_OK then (e4, s4) else
          (case setup_if (handle_sigusr2 c) SIGUSR2 s4 of (e5, s5) \<Rightarrow>
           if e5 \<noteq> SIGNAL_OK then (e5, s5) else
          (case setup_if (handle_sigpipe c) SIGPIPE s5 of (e6, s6) \<Rightarrow>
           if e6 \<noteq> SIGNAL_OK then (e6, s6) else
           (SIGNAL_OK, emit Log_debug_initialized s6))))))))"

text \<open>One block \<open>if (manager->config.handle_x) { setup_signal_handler(X, false); }\<close>.\<close>

definition restore_if :: "bool \<Rightarrow> int \<Rightarrow> signal_state \<Rightarrow> signal_state" where
  "restore_if enabled signum s =
     (if enabled then snd (setup_signal_handler s signum False) else s)"

definition signal_manager_cleanup :: "signal_state \<Rightarrow> nat option \<Rightarrow> signal_state" where
  "signal_manager_cleanup s manager =
     (case manager of
        None \<Rightarrow> s
      | Some p \<Rightarrow>
          let s0 = (if global_signal_manager s = Some p
                    then s\<lparr>global_signal_manager := None\<rparr> else s);
              c = sig_config (managers s0 p);
              s1 = restore_if (handle_sigterm c) SIGTERM s0;
              s2 = restore_if (handle_sigint c) SIGINT s1;
              s3 = restore_if (handle_sighup c) SIGHUP s2;
              s4 = restore_if (handle_sigusr1 c) SIGUSR1 s3;
              s5 = restore_if (handle_sigusr2 c) SIGUSR2 s4;
              s6 = restore_if (handle_sigpipe c) SIGPIPE s5
          in emit Log_debug_cleaned_up
               (s6\<lparr>managers := (managers s6)(p := zero_signal_manager)\<rparr>))"

subsection \<open>Callbacks and flags\<close>

definition signal_manager_set_handler ::
  "signal_state \<Rightarrow> nat option \<Rightarrow> int \<Rightarrow> signal_callback_t \<Rightarrow> signal_error_t \<times> signal_state" where
  "signal_manager_set_handler s manager signum callback =
     (case manager of
        None \<Rightarrow> (SIGNAL_ERROR_INVALID_PARAM, s)
      | Some p \<Rightarrow>
          let m = managers s p in
          if signum = SIGTERM then
            (SIGNAL_OK, s\<lparr>managers := (managers s)(p := m\<lparr>sigterm_handler := callback\<rparr>)\<rparr>)
          else if signum = SIGINT then
            (SIGNAL_OK, s\<lparr>managers := (managers s)(p := m\<lparr>sigint_handler := callback\<rparr>)\<rparr>)
          else if signum = SIGHUP then
            (SIGNAL_OK, s\<lparr>managers := (managers s)(p := m\<lparr>sighup_handler := callback\<rparr>)\<rparr>)
          else if signum = SIGUSR1 then
            (SIGNAL_OK, s\<lparr>managers := (managers s)(p := m\<lparr>sigusr1_handler := callback\<rparr>)\<rparr>)
          else if signum = SIGUSR2 then
            (SIGNAL_OK, s\<lparr>managers := (managers s)(p := m\<lparr>sigusr2_handler := callback\<rparr>)\<rparr>)
          else (SIGNAL_ERROR_INVALID_PARAM, s))"

definition signal_manager_shutdown_requested :: "signal_state \<Rightarrow> nat option \<Rightarrow> bool" where
  "signal_manager_shutdown_requested s manager =
     (case manager of None \<Rightarrow> False | Some p \<Rightarrow> shutdown_requested (managers s p) \<noteq> 0)"

definition signal_manager_reload_requested :: "signal_state \<Rightarrow> nat option \<Rightarrow> bool" where
  "signal_manager_reload_requested s manager =
     (case manager of None \<Rightarrow> False | Some p \<Rightarrow> reload_requested (managers s p) \<noteq> 0)"

definition signal_manager_reset_shutdown :: "signal_state \<Rightarrow> nat option \<Rightarrow> signal_state" where
  "signal_manager_reset_shutdown s manager =
     (case manager of
        None \<Rightarrow> s
      | Some p \<Rightarrow> s\<lparr>managers := (managers s)(p := (managers s p)\<lparr>shutdown_requested := 0\<rparr>)\<rparr>)"

definition signal_manager_reset_reload :: "signal_state \<Rightarrow> nat option \<Rightarrow> signal_state" where
  "signal_manager_reset_reload s manager =
     (case manager of
        None \<Rightarrow> s
      | Some p \<Rightarrow> s\<lparr>managers := (managers s)(p := (managers s p)\<lparr>reload_requested := 0\<rparr>)\<rparr>)"

subsection \<open>Sequences of operations on the signal manager\<close>

text \<open>
  The operations a process can perform, for statements about all that may happen after
  a signal: the handler running for a signal, and each call of the interface.
\<close>

datatype sig_op =
    Handler_runs int
  | Call_shutdown_requested "nat option"
  | Call_reload_requested "nat option"
  | Call_set_handler "nat option" int signal_callback_t
  | Call_reset_reload "nat option"
  | Call_reset_shutdown "nat option"
  | Call_init "nat option" "signal_config_t option"
  | Call_cleanup "nat option"

fun run_op :: "signal_state \<Rightarrow> sig_op \<Rightarrow> signal_state" where
  "run_op s (Handler_runs signum) = signal_handler s signum"
| "run_op s (Call_shutdown_requested p) = s"
| "run_op s (Call_reload_requested p) = s"
| "run_op s (Call_set_handler p signum cb) = snd (signal_manager_set_handler s p signum cb)"
| "run_op s (Call_reset_reload p) = signal_manager_reset_reload s p"
| "run_op s (Call_reset_shutdown p) = signal_manager_reset_shutdown s p"
| "run_op s (Call_init p cfg) = snd (signal_manager_init s p cfg)"
| "run_op s (Call_cleanup p) = signal_manager_cleanup s p"

fun run_ops :: "signal_state \<Rightarrow> sig_op list \<Rightarrow> signal_state" where
  "run_ops s [] = s"
| "run_ops s (op # ops) = run_ops (run_op s op) ops"

text \<open>The operations that zero or clear the shutdown flag of the manager at \<open>p\<close>.\<close>

fun clears_shutdown :: "nat \<Rightarrow> sig_op \<Rightarrow> bool" where
  "clears_shutdown p (Call_reset_shutdown q) = (q = Some p)"
| "clears_shutdown p (Call_init q cfg) = (q = Some p)"
| "clears_shutdown p (Call_cleanup q) = (q = Some p)"
| "clears_shutdown p _ = False"

subsection \<open>Repeated calls of worker_manager_signal_ready\<close>

text \<open>
  A process calling \<open>worker_manager_signal_ready\<close> again and again, the operating
  system answering each call from an environment of its own: the return codes in order,
  the manager at the end and all events.
\<close>

fun signal_ready_repeatedly ::
  "os_env list \<Rightarrow> worker_manager_t option \<Rightarrow>
     (process_error_t list \<times> worker_manager_t option \<times> event list) option" where
  "signal_ready_repeatedly [] manager = Some ([], manager, [])"
| "signal_ready_repeatedly (os # oss) manager =
     (case worker_manager_signal_ready os manager of
        None \<Rightarrow> None
      | Some (e, manager', tr) \<Rightarrow>
          (case signal_ready_repeatedly oss manager' of
             None \<Rightarrow> None
           | Some (es, manager'', tr') \<Rightarrow> Some (e # es, manager'', tr @ tr')))"

text \<open>An event that signals a readiness channel: an \<open>eventfd_write\<close> that did not fail.\<close>

fun is_signal :: "event \<Rightarrow> bool" where
  "is_signal (Sys_eventfd_write fd r) = (r \<noteq> - 1)"
| "is_signal _ = False"

section \<open>Example states\<close>

text \<open>
  A pool of two workers on the CPUs 4 and 6 as \<open>worker_manager_init\<close> leaves it, the
  same pool seen by the second worker after its fork, and an operating system in which
  every call succeeds: descriptors 10, 11, ..., process ids 100, 101, ...
\<close>

definition example_config :: worker_config_t where
  "example_config = \<lparr>worker_count = 2, cpu_ids = Points_to [4, 6], enable_affinity = True\<rparr>"

definition example_parent :: worker_manager_t where
  "example_parent =
     \<lparr>config = example_config,
      workers = Points_to [zero_worker_context, zero_worker_context],
      type = PROCESS_TYPE_PARENT, current_worker_id = - 1\<rparr>"

definition example_worker :: worker_manager_t where
  "example_worker =
     \<lparr>config = example_config,
      workers = Points_to [\<lparr>worker_id = 0, cpu_id = 4, eventfd = - 1, pid = 100\<rparr>,
                           \<lparr>worker_id = 0, cpu_id = 6, eventfd = 11, pid = 0\<rparr>],
      type = PROCESS_TYPE_WORKER, current_worker_id = 1\<rparr>"

definition example_os :: os_env where
  "example_os =
     \<lparr>malloc_result = (\<lambda>k. True),
      eventfd_result = (\<lambda>i. 10 + int i),
      fork_result = (\<lambda>i. 100 + int i),
      eventfd_read_result = (\<lambda>i. 0),
      eventfd_write_result = (\<lambda>fd. 0),
      sched_setaffinity_result = (\<lambda>cpu. 0),
      wait_result = 101\<rparr>"

definition example_signal_state :: signal_state where
  "example_signal_state =
     \<lparr>managers = (\<lambda>p. zero_signal_manager),
      global_signal_manager = None,
      disposition = (\<lambda>signum. \<lparr>sa_handler = SIG_DFL, sa_mask = {}, sa_flags = 0\<rparr>),
      sigaction_refused = (\<lambda>signum. False),
      sig_trace = []\<rparr>"

section \<open>Verified properties\<close>

subsection \<open>Accessors\<close>

text \<open>
  C9, as the code has it. The accessors are defined on every manager, null included.
  \<open>worker_manager_get_type\<close> of a null manager is the parent type.
  \<open>worker_manager_get_worker_id\<close> is \<open>-1\<close> for a null manager and for a parent, and for
  a worker it is the stored index as it is, with no range check.
  \<open>worker_manager_get_cpu_id\<close> is \<open>-1\<close> for a null manager, for a parent and for a
  stored index outside \<open>0 .. worker_count - 1\<close>, and for a worker with index \<open>i\<close> in
  range it is the CPU recorded in slot \<open>i\<close>.
\<close>

theorem accessors_defined:
  "worker_manager_get_type None = PROCESS_TYPE_PARENT
   \<and> worker_manager_get_worker_id None = - 1
   \<and> worker_manager_get_cpu_id None = Some (- 1)
   \<and> (type m = PROCESS_TYPE_PARENT \<longrightarrow>
        worker_manager_get_worker_id (Some m) = - 1
        \<and> worker_manager_get_cpu_id (Some m) = Some (- 1))
   \<and> (type m = PROCESS_TYPE_WORKER \<longrightarrow>
        worker_manager_get_worker_id (Some m) = current_worker_id m)
   \<and> (current_worker_id m < 0 \<or> current_worker_id m \<ge> worker_count (config m) \<longrightarrow>
        worker_manager_get_cpu_id (Some m) = Some (- 1))
   \<and> (type m = PROCESS_TYPE_WORKER \<and> 0 \<le> current_worker_id m
        \<and> current_worker_id m < worker_count (config m)
        \<and> workers m = Points_to ws \<and> nat (current_worker_id m) < length ws \<longrightarrow>
        worker_manager_get_cpu_id (Some m) = Some (cpu_id (ws ! nat (current_worker_id m))))"
  by (simp add: worker_manager_get_type_def worker_manager_get_worker_id_def
      worker_manager_get_cpu_id_def Let_def)

text \<open>
  The theorem at a parent, at the second worker of the example pool, and at a worker
  whose stored index 5 is outside a pool of two.
\<close>

theorem accessors_defined_witness:
  "worker_manager_get_worker_id (Some example_parent) = - 1
   \<and> worker_manager_get_cpu_id (Some example_parent) = Some (- 1)
   \<and> worker_manager_get_worker_id (Some example_worker) = 1
   \<and> worker_manager_get_cpu_id (Some example_worker) = Some 6
   \<and> worker_manager_get_cpu_id (Some (example_worker\<lparr>current_worker_id := 5\<rparr>)) = Some (- 1)"
  using accessors_defined [where m = example_parent]
    accessors_defined [where m = example_worker
      and ws = "[\<lparr>worker_id = 0, cpu_id = 4, eventfd = - 1, pid = 100\<rparr>,
                 \<lparr>worker_id = 0, cpu_id = 6, eventfd = 11, pid = 0\<rparr>]"]
    accessors_defined [where m = "example_worker\<lparr>current_worker_id := 5\<rparr>"]
  by (simp add: example_parent_def example_worker_def example_config_def)

text \<open>
  C9 as stated fails for \<open>worker_manager_get_worker_id\<close>: with the worker type and the
  stored index 5 in a pool of two workers, the index is out of range and the result is
  5, not \<open>-1\<close>.
\<close>

theorem get_worker_id_out_of_range:
  "current_worker_id (example_worker\<lparr>current_worker_id := 5\<rparr>)
     \<ge> worker_count (config (example_worker\<lparr>current_worker_id := 5\<rparr>))
   \<and> worker_manager_get_worker_id (Some (example_worker\<lparr>current_worker_id := 5\<rparr>)) = 5
   \<and> worker_manager_get_worker_id (Some (example_worker\<lparr>current_worker_id := 5\<rparr>)) \<noteq> - 1"
  by (simp add: worker_manager_get_worker_id_def example_worker_def example_config_def)

subsection \<open>Waiting for a worker to exit\<close>

text \<open>
  C6, as the code has it. \<open>worker_manager_wait_workers\<close> returns an error without
  calling \<open>wait\<close> unless the manager is a parent's. A parent calls \<open>wait\<close> once; when
  \<open>wait\<close> returns a process id the function logs that id and returns \<open>PROCESS_OK\<close>,
  leaving the manager as it was: the id is not handed to the caller. The function
  returns \<open>PROCESS_ERROR_WAIT\<close> exactly when it is called by a parent and \<open>wait\<close> fails.
\<close>

theorem wait_workers_result:
  "worker_manager_wait_workers os None = (PROCESS_ERROR_INVALID_PARAM, None, [])
   \<and> (type m \<noteq> PROCESS_TYPE_PARENT \<longrightarrow>
        worker_manager_wait_workers os (Some m) = (PROCESS_ERROR_INVALID_PARAM, Some m, []))
   \<and> (type m = PROCESS_TYPE_PARENT \<and> wait_result os \<noteq> - 1 \<longrightarrow>
        worker_manager_wait_workers os (Some m) =
          (PROCESS_OK, Some m,
           [Sys_wait (wait_result os), Log_error_worker_exited (wait_result os)]))
   \<and> (fst (worker_manager_wait_workers os manager) = PROCESS_ERROR_WAIT \<longleftrightarrow>
        (\<exists>m'. manager = Some m' \<and> type m' = PROCESS_TYPE_PARENT) \<and> wait_result os = - 1)
   \<and> (fst (worker_manager_wait_workers os manager) = PROCESS_ERROR_WAIT \<longrightarrow>
        snd (worker_manager_wait_workers os manager) = (manager, [Sys_wait (- 1)]))"
  by (auto simp add: worker_manager_wait_workers_def Let_def split: option.split)

theorem wait_workers_result_witness:
  "worker_manager_wait_workers example_os (Some example_worker) =
     (PROCESS_ERROR_INVALID_PARAM, Some example_worker, [])
   \<and> worker_manager_wait_workers example_os (Some example_parent) =
     (PROCESS_OK, Some example_parent, [Sys_wait 101, Log_error_worker_exited 101])
   \<and> worker_manager_wait_workers (example_os\<lparr>wait_result := - 1\<rparr>) (Some example_parent) =
     (PROCESS_ERROR_WAIT, Some example_parent, [Sys_wait (- 1)])"
  using wait_workers_result [where m = example_worker and os = example_os]
    wait_workers_result [where m = example_parent and os = example_os]
    wait_workers_result [where manager = "Some example_parent"
      and os = "example_os\<lparr>wait_result := - 1\<rparr>"]
  by (simp add: example_parent_def example_worker_def example_os_def prod_eq_iff)

text \<open>
  C6 as stated fails where it says that the identity of the terminated worker is
  returned: when process 101 exits and when process 102 exits, the caller gets the same
  return code and the same manager.
\<close>

theorem wait_workers_hides_identity:
  "wait_result example_os \<noteq> wait_result (example_os\<lparr>wait_result := 102\<rparr>)
   \<and> fst (worker_manager_wait_workers example_os (Some example_parent)) = PROCESS_OK
   \<and> fst (worker_manager_wait_workers (example_os\<lparr>wait_result := 102\<rparr>) (Some example_parent))
       = PROCESS_OK
   \<and> fst (snd (worker_manager_wait_workers example_os (Some example_parent)))
       = fst (snd (worker_manager_wait_workers (example_os\<lparr>wait_result := 102\<rparr>)
                     (Some example_parent)))"
  by (simp add: worker_manager_wait_workers_def example_parent_def example_os_def)

subsection \<open>Registering callbacks\<close>

text \<open>
  C10. \<open>signal_manager_set_handler\<close> on a manager stores the callback in the field of
  the signal and returns \<open>SIGNAL_OK\<close> for \<open>SIGTERM\<close>, \<open>SIGINT\<close>, \<open>SIGHUP\<close>, \<open>SIGUSR1\<close> and
  \<open>SIGUSR2\<close>, and for these five only. For every other signal number, \<open>SIGPIPE\<close>
  included, it returns \<open>SIGNAL_ERROR_INVALID_PARAM\<close> and changes nothing.
\<close>

theorem set_handler_five_signals:
  "signal_manager_set_handler s (Some p) SIGTERM cb =
     (SIGNAL_OK, s\<lparr>managers := (managers s)(p := (managers s p)\<lparr>sigterm_handler := cb\<rparr>)\<rparr>)
   \<and> signal_manager_set_handler s (Some p) SIGINT cb =
     (SIGNAL_OK, s\<lparr>managers := (managers s)(p := (managers s p)\<lparr>sigint_handler := cb\<rparr>)\<rparr>)
   \<and> signal_manager_set_handler s (Some p) SIGHUP cb =
     (SIGNAL_OK, s\<lparr>managers := (managers s)(p := (managers s p)\<lparr>sighup_handler := cb\<rparr>)\<rparr>)
   \<and> signal_manager_set_handler s (Some p) SIGUSR1 cb =
     (SIGNAL_OK, s\<lparr>managers := (managers s)(p := (managers s p)\<lparr>sigusr1_handler := cb\<rparr>)\<rparr>)
   \<and> signal_manager_set_handler s (Some p) SIGUSR2 cb =
     (SIGNAL_OK, s\<lparr>managers := (managers s)(p := (managers s p)\<lparr>sigusr2_handler := cb\<rparr>)\<rparr>)
   \<and> (signum \<notin> {SIGTERM, SIGINT, SIGHUP, SIGUSR1, SIGUSR2} \<longrightarrow>
        signal_manager_set_handler s manager signum cb = (SIGNAL_ERROR_INVALID_PARAM, s))
   \<and> signal_manager_set_handler s manager SIGPIPE cb = (SIGNAL_ERROR_INVALID_PARAM, s)
   \<and> (fst (signal_manager_set_handler s (Some p) signum cb) = SIGNAL_OK
        \<longleftrightarrow> signum \<in> {SIGTERM, SIGINT, SIGHUP, SIGUSR1, SIGUSR2})"
  by (simp add: signal_manager_set_handler_def Let_def SIGTERM_def SIGINT_def SIGHUP_def
      SIGUSR1_def SIGUSR2_def SIGPIPE_def split: option.split)

theorem set_handler_five_signals_witness:
  "signal_manager_set_handler example_signal_state (Some 0) 9 (Some 3) =
     (SIGNAL_ERROR_INVALID_PARAM, example_signal_state)
   \<and> fst (signal_manager_set_handler example_signal_state (Some 0) 9 (Some 3)) \<noteq> SIGNAL_OK"
  using set_handler_five_signals [where signum = 9 and s = example_signal_state
      and manager = "Some 0" and p = 0 and cb = "Some 3"]
  by (simp add: SIGTERM_def SIGINT_def SIGHUP_def SIGUSR1_def SIGUSR2_def)

subsection \<open>Initialising the pool\<close>

text \<open>
  C5. \<open>worker_manager_init\<close> rejects a configuration whose \<open>worker_count\<close> is not
  positive (zero in particular) or whose CPU list is null with
  \<open>PROCESS_ERROR_INVALID_PARAM\<close>, before \<open>system_init\<close> and before any allocation: no
  event at all, manager untouched. When it returns \<open>PROCESS_OK\<close> the count was positive
  and a list was supplied, and the manager holds the count, the affinity flag, a block of
  its own with the first \<open>worker_count\<close> CPU ids, a zeroed array of \<open>worker_count\<close>
  slots, the parent type and the index \<open>-1\<close>; the two blocks are the two allocations
  made. It does return \<open>PROCESS_OK\<close> for such a configuration when both allocations
  succeed, and in no case does it fork.
\<close>

theorem init_validates_and_copies:
  "(worker_count c \<le> 0 \<or> cpu_ids c = Null_ptr \<longrightarrow>
      worker_manager_init os si (Some m) (Some c) =
        Some (PROCESS_ERROR_INVALID_PARAM, Some m, si, []))
   \<and> (worker_manager_init os si manager cfg = Some (PROCESS_OK, manager', si', tr) \<longrightarrow>
        (\<exists>c' cs. cfg = Some c' \<and> manager \<noteq> None \<and> 0 < worker_count c'
           \<and> cpu_ids c' = Points_to cs \<and> nat (worker_count c') \<le> length cs
           \<and> manager' =
               Some \<lparr>config = \<lparr>worker_count = worker_count c',
                                 cpu_ids = Points_to (take (nat (worker_count c')) cs),
                                 enable_affinity = enable_affinity c'\<rparr>,
                      workers = Points_to (replicate (nat (worker_count c')) zero_worker_context),
                      type = PROCESS_TYPE_PARENT, current_worker_id = - 1\<rparr>
           \<and> tr = (if si then [] else [Sys_signal_ignore_sigpipe])
                    @ [Sys_malloc (nat (worker_count c') * sizeof_int),
                       Sys_malloc (nat (worker_count c') * sizeof_worker_context_t)]))
   \<and> (0 < worker_count c \<and> cpu_ids c = Points_to cs \<and> nat (worker_count c) \<le> length cs
        \<and> malloc_result os 0 \<and> malloc_result os 1 \<longrightarrow>
        (\<exists>manager' si' tr. worker_manager_init os si (Some m) (Some c) =
           Some (PROCESS_OK, manager', si', tr)))
   \<and> (worker_manager_init os si manager cfg = Some (e, manager', si', tr) \<longrightarrow>
        (\<forall>p. Sys_fork p \<notin> set tr))"
  apply (intro conjI impI)
  subgoal by (auto simp add: worker_manager_init_def)
  subgoal
    by (auto simp add: worker_manager_init_def system_init_def system_malloc_def Let_def
        zero_worker_manager_def sizeof_int_def sizeof_worker_context_t_def
        split: option.splits if_splits c_ptr.splits prod.splits)
  subgoal
    by (auto simp add: worker_manager_init_def system_init_def system_malloc_def Let_def
        sizeof_int_def sizeof_worker_context_t_def)
  subgoal
    by (auto simp add: worker_manager_init_def system_init_def system_malloc_def Let_def
        split: option.splits if_splits c_ptr.splits prod.splits)
  done

text \<open>
  The theorem at the example configuration, which yields the example pool, and at the
  same configuration with \<open>worker_count = 0\<close>.
\<close>

theorem init_validates_and_copies_witness:
  "worker_manager_init example_os False (Some zero_worker_manager)
       (Some (example_config\<lparr>worker_count := 0\<rparr>)) =
     Some (PROCESS_ERROR_INVALID_PARAM, Some zero_worker_manager, False, [])
   \<and> worker_manager_init example_os False (Some zero_worker_manager) (Some example_config) =
     Some (PROCESS_OK, Some example_parent, True,
           [Sys_signal_ignore_sigpipe, Sys_malloc 8, Sys_malloc 32])
   \<and> Sys_fork 0 \<notin> set [Sys_signal_ignore_sigpipe, Sys_malloc 8, Sys_malloc 32]"
proof -
  have run: "worker_manager_init example_os False (Some zero_worker_manager) (Some example_config) =
     Some (PROCESS_OK, Some example_parent, True,
           [Sys_signal_ignore_sigpipe, Sys_malloc 8, Sys_malloc 32])"
    by (simp add: worker_manager_init_def system_init_def system_malloc_def Let_def
        zero_worker_manager_def sizeof_int_def sizeof_worker_context_t_def
        example_config_def example_os_def example_parent_def numeral_2_eq_2)
  show ?thesis
    using run
      init_validates_and_copies [where c = "example_config\<lparr>worker_count := 0\<rparr>"
        and os = example_os and si = False and m = zero_worker_manager]
      init_validates_and_copies [where manager = "Some zero_worker_manager"
        and cfg = "Some example_config" and os = example_os and si = False
        and manager' = "Some example_parent" and si' = True and e = PROCESS_OK
        and tr = "[Sys_signal_ignore_sigpipe, Sys_malloc 8, Sys_malloc 32]"
        and c = example_config and cs = "[4, 6]"]
    by (simp add: example_config_def example_os_def)
qed

subsection \<open>Signalling readiness\<close>

lemma signal_ready_success:
  assumes "worker_manager_signal_ready os manager = Some (PROCESS_OK, manager', tr)"
  shows "\<exists>m ws. manager = Some m \<and> type m = PROCESS_TYPE_WORKER
           \<and> 0 \<le> current_worker_id m \<and> current_worker_id m < worker_count (config m)
           \<and> workers m = Points_to ws \<and> nat (current_worker_id m) < length ws
           \<and> 0 < eventfd (ws ! nat (current_worker_id m))
           \<and> eventfd_write_result os (eventfd (ws ! nat (current_worker_id m))) \<noteq> - 1
           \<and> tr = [Sys_eventfd_write (eventfd (ws ! nat (current_worker_id m)))
                      (eventfd_write_result os (eventfd (ws ! nat (current_worker_id m)))),
                    Sys_close (eventfd (ws ! nat (current_worker_id m)))]
           \<and> manager' = Some (m\<lparr>workers := Points_to (ws[nat (current_worker_id m) :=
                                 (ws ! nat (current_worker_id m))\<lparr>eventfd := - 1\<rparr>])\<rparr>)"
  using assms
  by (auto simp add: worker_manager_signal_ready_def Let_def
      split: option.splits if_splits c_ptr.splits)

lemma signal_ready_spent:
  assumes "workers m = Points_to ws" "nat (current_worker_id m) < length ws"
    "eventfd (ws ! nat (current_worker_id m)) \<le> 0"
  shows "worker_manager_signal_ready os (Some m) = Some (PROCESS_ERROR_INVALID_PARAM, Some m, [])"
  using assms by (auto simp add: worker_manager_signal_ready_def Let_def)

lemma signal_ready_second:
  assumes "worker_manager_signal_ready os manager = Some (PROCESS_OK, manager', tr)"
  shows "worker_manager_signal_ready os' manager' = Some (PROCESS_ERROR_INVALID_PARAM, manager', [])"
proof -
  from signal_ready_success [OF assms] obtain m ws where
    m: "manager = Some m" "workers m = Points_to ws" "nat (current_worker_id m) < length ws"
    and m': "manager' = Some (m\<lparr>workers := Points_to (ws[nat (current_worker_id m) :=
                                 (ws ! nat (current_worker_id m))\<lparr>eventfd := - 1\<rparr>])\<rparr>)"
    by blast
  show ?thesis unfolding m'
    by (rule signal_ready_spent [where ws = "ws[nat (current_worker_id m) :=
                                 (ws ! nat (current_worker_id m))\<lparr>eventfd := - 1\<rparr>]"])
      (use m in simp_all)
qed

lemma signal_ready_failure:
  assumes "worker_manager_signal_ready os manager = Some (e, manager', tr)" "e \<noteq> PROCESS_OK"
  shows "manager' = manager \<and> filter is_signal tr = []"
  using assms
  by (auto simp add: worker_manager_signal_ready_def Let_def
      split: option.splits if_splits c_ptr.splits)

lemma repeatedly_spent:
  assumes "\<And>os. worker_manager_signal_ready os manager =
                   Some (PROCESS_ERROR_INVALID_PARAM, manager, [])"
  shows "signal_ready_repeatedly oss manager =
           Some (replicate (length oss) PROCESS_ERROR_INVALID_PARAM, manager, [])"
  by (induction oss) (simp_all add: assms)

lemma repeatedly_once:
  "signal_ready_repeatedly oss manager = Some (es, manager', tr) \<Longrightarrow>
     length (filter (\<lambda>e. e = PROCESS_OK) es) \<le> 1 \<and> length (filter is_signal tr) \<le> 1"
proof (induction oss arbitrary: manager es tr)
  case Nil
  then show ?case by simp
next
  case (Cons os oss)
  from Cons.prems obtain e m1 tr1 es2 tr2 where
    first: "worker_manager_signal_ready os manager = Some (e, m1, tr1)"
    and rest: "signal_ready_repeatedly oss m1 = Some (es2, manager', tr2)"
    and es: "es = e # es2" and tr: "tr = tr1 @ tr2"
    by (auto split: option.splits)
  show ?case
  proof (cases "e = PROCESS_OK")
    case True
    with first have spent: "\<And>os'. worker_manager_signal_ready os' m1 =
        Some (PROCESS_ERROR_INVALID_PARAM, m1, [])"
      using signal_ready_second by blast
    from repeatedly_spent [OF spent, of oss] rest
    have "es2 = replicate (length oss) PROCESS_ERROR_INVALID_PARAM" "tr2 = []" by simp_all
    moreover from first True have "length (filter is_signal tr1) \<le> 1"
      using signal_ready_success by fastforce
    ultimately show ?thesis using es tr True by simp
  next
    case False
    with first have "m1 = manager" "filter is_signal tr1 = []"
      using signal_ready_failure by blast+
    with Cons.IH [OF rest] es tr False show ?thesis by simp
  qed
qed

text \<open>
  C4. \<open>worker_manager_signal_ready\<close> returns \<open>PROCESS_OK\<close> only for a manager of worker
  type whose index \<open>i\<close> is in range and whose slot \<open>i\<close> records an open handle (a
  descriptor greater than zero); it then has written to that handle once, closed it and
  marked the slot \<open>-1\<close>, and every later call on the resulting manager returns
  \<open>PROCESS_ERROR_INVALID_PARAM\<close> (the code's error for a wrong state) without any
  system call. A call that is not by a worker, the parent's in particular, or with a
  null manager, returns the same error without any system call. Hence, however often
  one process calls it and whatever the operating system answers, at most one call
  succeeds and at most one write signals the channel.
\<close>

theorem signal_ready_at_most_once:
  "(worker_manager_signal_ready os manager = Some (PROCESS_OK, manager', tr) \<longrightarrow>
      (\<exists>m ws. manager = Some m \<and> type m = PROCESS_TYPE_WORKER
         \<and> 0 \<le> current_worker_id m \<and> current_worker_id m < worker_count (config m)
         \<and> workers m = Points_to ws \<and> nat (current_worker_id m) < length ws
         \<and> 0 < eventfd (ws ! nat (current_worker_id m))
         \<and> eventfd_write_result os (eventfd (ws ! nat (current_worker_id m))) \<noteq> - 1
         \<and> tr = [Sys_eventfd_write (eventfd (ws ! nat (current_worker_id m)))
                    (eventfd_write_result os (eventfd (ws ! nat (current_worker_id m)))),
                  Sys_close (eventfd (ws ! nat (current_worker_id m)))]
         \<and> manager' = Some (m\<lparr>workers := Points_to (ws[nat (current_worker_id m) :=
                               (ws ! nat (current_worker_id m))\<lparr>eventfd := - 1\<rparr>])\<rparr>))
      \<and> (\<forall>os'. worker_manager_signal_ready os' manager' =
                  Some (PROCESS_ERROR_INVALID_PARAM, manager', [])))
   \<and> (type mgr \<noteq> PROCESS_TYPE_WORKER \<longrightarrow>
        worker_manager_signal_ready os (Some mgr) =
          Some (PROCESS_ERROR_INVALID_PARAM, Some mgr, []))
   \<and> worker_manager_signal_ready os None = Some (PROCESS_ERROR_INVALID_PARAM, None, [])
   \<and> (signal_ready_repeatedly oss manager = Some (es, manager'', tr') \<longrightarrow>
        length (filter (\<lambda>e. e = PROCESS_OK) es) \<le> 1 \<and> length (filter is_signal tr') \<le> 1)"
proof (intro conjI impI allI)
  assume ok: "worker_manager_signal_ready os manager = Some (PROCESS_OK, manager', tr)"
  from signal_ready_success [OF ok]
  show "\<exists>m ws. manager = Some m \<and> type m = PROCESS_TYPE_WORKER
         \<and> 0 \<le> current_worker_id m \<and> current_worker_id m < worker_count (config m)
         \<and> workers m = Points_to ws \<and> nat (current_worker_id m) < length ws
         \<and> 0 < eventfd (ws ! nat (current_worker_id m))
         \<and> eventfd_write_result os (eventfd (ws ! nat (current_worker_id m))) \<noteq> - 1
         \<and> tr = [Sys_eventfd_write (eventfd (ws ! nat (current_worker_id m)))
                    (eventfd_write_result os (eventfd (ws ! nat (current_worker_id m)))),
                  Sys_close (eventfd (ws ! nat (current_worker_id m)))]
         \<and> manager' = Some (m\<lparr>workers := Points_to (ws[nat (current_worker_id m) :=
                               (ws ! nat (current_worker_id m))\<lparr>eventfd := - 1\<rparr>])\<rparr>)" .
  fix os'
  from signal_ready_second [OF ok]
  show "worker_manager_signal_ready os' manager' =
          Some (PROCESS_ERROR_INVALID_PARAM, manager', [])" .
next
  assume "type mgr \<noteq> PROCESS_TYPE_WORKER"
  then show "worker_manager_signal_ready os (Some mgr) =
          Some (PROCESS_ERROR_INVALID_PARAM, Some mgr, [])"
    by (simp add: worker_manager_signal_ready_def)
next
  show "worker_manager_signal_ready os None = Some (PROCESS_ERROR_INVALID_PARAM, None, [])"
    by (simp add: worker_manager_signal_ready_def)
next
  assume "signal_ready_repeatedly oss manager = Some (es, manager'', tr')"
  then show "length (filter (\<lambda>e. e = PROCESS_OK) es) \<le> 1"
    and "length (filter is_signal tr') \<le> 1"
    using repeatedly_once by blast+
qed

text \<open>
  The theorem at the second worker of the example pool, calling twice, and at the
  parent.
\<close>

theorem signal_ready_at_most_once_witness:
  "worker_manager_signal_ready example_os (Some example_worker) =
     Some (PROCESS_OK,
           Some (example_worker\<lparr>workers :=
                   Points_to [\<lparr>worker_id = 0, cpu_id = 4, eventfd = - 1, pid = 100\<rparr>,
                              \<lparr>worker_id = 0, cpu_id = 6, eventfd = - 1, pid = 0\<rparr>]\<rparr>),
           [Sys_eventfd_write 11 0, Sys_close 11])
   \<and> worker_manager_signal_ready example_os
       (Some (example_worker\<lparr>workers :=
                Points_to [\<lparr>worker_id = 0, cpu_id = 4, eventfd = - 1, pid = 100\<rparr>,
                           \<lparr>worker_id = 0, cpu_id = 6, eventfd = - 1, pid = 0\<rparr>]\<rparr>)) =
     Some (PROCESS_ERROR_INVALID_PARAM,
           Some (example_worker\<lparr>workers :=
                   Points_to [\<lparr>worker_id = 0, cpu_id = 4, eventfd = - 1, pid = 100\<rparr>,
                              \<lparr>worker_id = 0, cpu_id = 6, eventfd = - 1, pid = 0\<rparr>]\<rparr>), [])
   \<and> worker_manager_signal_ready example_os (Some example_parent) =
     Some (PROCESS_ERROR_INVALID_PARAM, Some example_parent, [])
   \<and> signal_ready_repeatedly [example_os, example_os] (Some example_worker) =
     Some ([PROCESS_OK, PROCESS_ERROR_INVALID_PARAM],
           Some (example_worker\<lparr>workers :=
                   Points_to [\<lparr>worker_id = 0, cpu_id = 4, eventfd = - 1, pid = 100\<rparr>,
                              \<lparr>worker_id = 0, cpu_id = 6, eventfd = - 1, pid = 0\<rparr>]\<rparr>),
           [Sys_eventfd_write 11 0, Sys_close 11])
   \<and> length (filter is_signal [Sys_eventfd_write 11 0, Sys_close 11]) \<le> 1"
proof -
  have first: "worker_manager_signal_ready example_os (Some example_worker) =
     Some (PROCESS_OK,
           Some (example_worker\<lparr>workers :=
                   Points_to [\<lparr>worker_id = 0, cpu_id = 4, eventfd = - 1, pid = 100\<rparr>,
                              \<lparr>worker_id = 0, cpu_id = 6, eventfd = - 1, pid = 0\<rparr>]\<rparr>),
           [Sys_eventfd_write 11 0, Sys_close 11])"
    by (simp add: worker_manager_signal_ready_def example_worker_def example_config_def
        example_os_def)
  note inst = signal_ready_at_most_once [where os = example_os
      and manager = "Some example_worker"
      and manager' = "Some (example_worker\<lparr>workers :=
                   Points_to [\<lparr>worker_id = 0, cpu_id = 4, eventfd = - 1, pid = 100\<rparr>,
                              \<lparr>worker_id = 0, cpu_id = 6, eventfd = - 1, pid = 0\<rparr>]\<rparr>)"
      and tr = "[Sys_eventfd_write 11 0, Sys_close 11]" and mgr = example_parent
      and oss = "[example_os, example_os]"
      and es = "[PROCESS_OK, PROCESS_ERROR_INVALID_PARAM]"
      and manager'' = "Some (example_worker\<lparr>workers :=
                   Points_to [\<lparr>worker_id = 0, cpu_id = 4, eventfd = - 1, pid = 100\<rparr>,
                              \<lparr>worker_id = 0, cpu_id = 6, eventfd = - 1, pid = 0\<rparr>]\<rparr>)"
      and tr' = "[Sys_eventfd_write 11 0, Sys_close 11]"]
  have parent: "type example_parent \<noteq> PROCESS_TYPE_WORKER"
    by (simp add: example_parent_def)
  from inst first have second: "worker_manager_signal_ready example_os
       (Some (example_worker\<lparr>workers :=
                Points_to [\<lparr>worker_id = 0, cpu_id = 4, eventfd = - 1, pid = 100\<rparr>,
                           \<lparr>worker_id = 0, cpu_id = 6, eventfd = - 1, pid = 0\<rparr>]\<rparr>)) =
     Some (PROCESS_ERROR_INVALID_PARAM,
           Some (example_worker\<lparr>workers :=
                   Points_to [\<lparr>worker_id = 0, cpu_id = 4, eventfd = - 1, pid = 100\<rparr>,
                              \<lparr>worker_id = 0, cpu_id = 6, eventfd = - 1, pid = 0\<rparr>]\<rparr>), [])"
    by blast
  from inst parent have third: "worker_manager_signal_ready example_os (Some example_parent) =
     Some (PROCESS_ERROR_INVALID_PARAM, Some example_parent, [])"
    by blast
  have rep: "signal_ready_repeatedly [example_os, example_os] (Some example_worker) =
     Some ([PROCESS_OK, PROCESS_ERROR_INVALID_PARAM],
           Some (example_worker\<lparr>workers :=
                   Points_to [\<lparr>worker_id = 0, cpu_id = 4, eventfd = - 1, pid = 100\<rparr>,
                              \<lparr>worker_id = 0, cpu_id = 6, eventfd = - 1, pid = 0\<rparr>]\<rparr>),
           [Sys_eventfd_write 11 0, Sys_close 11])"
    by (simp add: first second)
  from inst rep have "length (filter is_signal [Sys_eventfd_write 11 0, Sys_close 11]) \<le> 1"
    by blast
  with first second third rep show ?thesis by blast
qed

subsection \<open>Installing and restoring handlers\<close>

lemma setup_signal_handler_frame [simp]:
  "managers (snd (setup_signal_handler s signum en)) = managers s"
  "global_signal_manager (snd (setup_signal_handler s signum en)) = global_signal_manager s"
  "sigaction_refused (snd (setup_signal_handler s signum en)) = sigaction_refused s"
  by (simp_all add: setup_signal_handler_def emit_def Let_def)

lemma setup_signal_handler_disposition:
  "disposition (snd (setup_signal_handler s signum en)) =
     (if sigaction_refused s signum then disposition s
      else (disposition s)
             (signum := if en then \<lparr>sa_handler = Handler_signal_handler,
                                    sa_mask = {SIGTERM, SIGINT, SIGHUP, SIGUSR1, SIGUSR2},
                                    sa_flags = SA_RESTART\<rparr>
                        else \<lparr>sa_handler = SIG_DFL, sa_mask = {}, sa_flags = 0\<rparr>))"
  by (simp add: setup_signal_handler_def emit_def Let_def)

lemma setup_signal_handler_ok:
  "fst (setup_signal_handler s signum en) = SIGNAL_OK \<longleftrightarrow> \<not> sigaction_refused s signum"
  by (simp add: setup_signal_handler_def Let_def)

lemma setup_if_frame [simp]:
  "managers (snd (setup_if b signum s)) = managers s"
  "global_signal_manager (snd (setup_if b signum s)) = global_signal_manager s"
  "sigaction_refused (snd (setup_if b signum s)) = sigaction_refused s"
  by (simp_all add: setup_if_def)

lemma restore_if_frame [simp]:
  "managers (restore_if b signum s) = managers s"
  "global_signal_manager (restore_if b signum s) = global_signal_manager s"
  "sigaction_refused (restore_if b signum s) = sigaction_refused s"
  by (simp_all add: restore_if_def)

lemma emit_frame [simp]:
  "managers (emit e s) = managers s"
  "global_signal_manager (emit e s) = global_signal_manager s"
  "sigaction_refused (emit e s) = sigaction_refused s"
  "disposition (emit e s) = disposition s"
  by (simp_all add: emit_def)

lemma init_managers:
  "managers (snd (signal_manager_init s (Some q) cfg)) =
     (managers s)(q := zero_signal_manager
        \<lparr>sig_config := (case cfg of Some c \<Rightarrow> c | None \<Rightarrow> signal_manager_default_config)\<rparr>)"
  by (simp add: signal_manager_init_def Let_def case_prod_beta)

lemma cleanup_managers:
  "managers (signal_manager_cleanup s (Some q)) = (managers s)(q := zero_signal_manager)"
  by (simp add: signal_manager_cleanup_def Let_def)

lemma init_default_ok:
  assumes "signal_manager_init s (Some p) (Some signal_manager_default_config) = (SIGNAL_OK, s1)"
  shows "\<not> sigaction_refused s SIGTERM \<and> \<not> sigaction_refused s SIGINT
         \<and> \<not> sigaction_refused s SIGPIPE"
  using assms
  by (auto simp add: signal_manager_init_def Let_def case_prod_beta
      signal_manager_default_config_def setup_if_def setup_signal_handler_def emit_def
      split: if_splits)

lemma init_default_state:
  assumes "\<not> sigaction_refused s SIGTERM" "\<not> sigaction_refused s SIGINT"
    "\<not> sigaction_refused s SIGPIPE"
  shows "signal_manager_init s (Some p) (Some signal_manager_default_config) =
     (SIGNAL_OK,
      s\<lparr>managers := (managers s)
            (p := zero_signal_manager\<lparr>sig_config := signal_manager_default_config\<rparr>),
        global_signal_manager := Some p,
        disposition := (disposition s)
            (SIGTERM := \<lparr>sa_handler = Handler_signal_handler,
                         sa_mask = {SIGTERM, SIGINT, SIGHUP, SIGUSR1, SIGUSR2},
                         sa_flags = SA_RESTART\<rparr>,
             SIGINT := \<lparr>sa_handler = Handler_signal_handler,
                        sa_mask = {SIGTERM, SIGINT, SIGHUP, SIGUSR1, SIGUSR2},
                        sa_flags = SA_RESTART\<rparr>,
             SIGPIPE := \<lparr>sa_handler = Handler_signal_handler,
                         sa_mask = {SIGTERM, SIGINT, SIGHUP, SIGUSR1, SIGUSR2},
                         sa_flags = SA_RESTART\<rparr>),
        sig_trace := sig_trace s @ [Log_debug_initialized]\<rparr>)"
  using assms
  by (simp add: signal_manager_init_def Let_def
      signal_manager_default_config_def setup_if_def setup_signal_handler_def emit_def)

lemma cleanup_default_disposition:
  assumes "sig_config (managers s p) = signal_manager_default_config"
    "\<not> sigaction_refused s SIGTERM" "\<not> sigaction_refused s SIGINT"
    "\<not> sigaction_refused s SIGPIPE"
  shows "disposition (signal_manager_cleanup s (Some p)) =
     (disposition s)
        (SIGTERM := \<lparr>sa_handler = SIG_DFL, sa_mask = {}, sa_flags = 0\<rparr>,
         SIGINT := \<lparr>sa_handler = SIG_DFL, sa_mask = {}, sa_flags = 0\<rparr>,
         SIGPIPE := \<lparr>sa_handler = SIG_DFL, sa_mask = {}, sa_flags = 0\<rparr>)"
  using assms
  by (simp add: signal_manager_cleanup_def Let_def
      signal_manager_default_config_def restore_if_def setup_signal_handler_def emit_def)

lemma init_global:
  "global_signal_manager (snd (signal_manager_init s (Some q) cfg)) = Some q"
  by (simp add: signal_manager_init_def Let_def case_prod_beta)

text \<open>
  C8. The default configuration enables \<open>SIGTERM\<close>, \<open>SIGINT\<close> and \<open>SIGPIPE\<close> and
  disables \<open>SIGHUP\<close>, \<open>SIGUSR1\<close> and \<open>SIGUSR2\<close>. When \<open>signal_manager_init\<close> with it
  returns \<open>SIGNAL_OK\<close>, the three enabled signals are handled by \<open>signal_handler\<close>, and
  after \<open>signal_manager_cleanup\<close> each of the three has the default disposition again,
  every other signal has the disposition it had before the initialisation, and the
  global reference is cleared. The initialisation does return \<open>SIGNAL_OK\<close> whenever the
  kernel does not refuse \<open>sigaction\<close> for the three signals.
\<close>

theorem default_config_round_trip:
  "handle_sigterm signal_manager_default_config
   \<and> handle_sigint signal_manager_default_config
   \<and> handle_sigpipe signal_manager_default_config
   \<and> \<not> handle_sighup signal_manager_default_config
   \<and> \<not> handle_sigusr1 signal_manager_default_config
   \<and> \<not> handle_sigusr2 signal_manager_default_config
   \<and> (signal_manager_init s (Some p) (Some signal_manager_default_config) = (SIGNAL_OK, s1) \<longrightarrow>
        (\<forall>signum \<in> {SIGTERM, SIGINT, SIGPIPE}.
           sa_handler (disposition s1 signum) = Handler_signal_handler
           \<and> disposition (signal_manager_cleanup s1 (Some p)) signum =
               \<lparr>sa_handler = SIG_DFL, sa_mask = {}, sa_flags = 0\<rparr>)
        \<and> (\<forall>signum. signum \<notin> {SIGTERM, SIGINT, SIGPIPE} \<longrightarrow>
             disposition (signal_manager_cleanup s1 (Some p)) signum = disposition s signum)
        \<and> global_signal_manager s1 = Some p
        \<and> global_signal_manager (signal_manager_cleanup s1 (Some p)) = None)
   \<and> (\<not> sigaction_refused s SIGTERM \<and> \<not> sigaction_refused s SIGINT
        \<and> \<not> sigaction_refused s SIGPIPE \<longrightarrow>
        fst (signal_manager_init s (Some p) (Some signal_manager_default_config)) = SIGNAL_OK)"
proof (intro conjI impI)
  assume ok: "signal_manager_init s (Some p) (Some signal_manager_default_config) = (SIGNAL_OK, s1)"
  note nr = init_default_ok [OF ok]
  from nr have st: "signal_manager_init s (Some p) (Some signal_manager_default_config) =
     (SIGNAL_OK,
      s\<lparr>managers := (managers s)
            (p := zero_signal_manager\<lparr>sig_config := signal_manager_default_config\<rparr>),
        global_signal_manager := Some p,
        disposition := (disposition s)
            (SIGTERM := \<lparr>sa_handler = Handler_signal_handler,
                         sa_mask = {SIGTERM, SIGINT, SIGHUP, SIGUSR1, SIGUSR2},
                         sa_flags = SA_RESTART\<rparr>,
             SIGINT := \<lparr>sa_handler = Handler_signal_handler,
                        sa_mask = {SIGTERM, SIGINT, SIGHUP, SIGUSR1, SIGUSR2},
                        sa_flags = SA_RESTART\<rparr>,
             SIGPIPE := \<lparr>sa_handler = Handler_signal_handler,
                         sa_mask = {SIGTERM, SIGINT, SIGHUP, SIGUSR1, SIGUSR2},
                         sa_flags = SA_RESTART\<rparr>),
        sig_trace := sig_trace s @ [Log_debug_initialized]\<rparr>)"
    by (intro init_default_state) simp_all
  with ok have s1: "s1 = s\<lparr>managers := (managers s)
            (p := zero_signal_manager\<lparr>sig_config := signal_manager_default_config\<rparr>),
        global_signal_manager := Some p,
        disposition := (disposition s)
            (SIGTERM := \<lparr>sa_handler = Handler_signal_handler,
                         sa_mask = {SIGTERM, SIGINT, SIGHUP, SIGUSR1, SIGUSR2},
                         sa_flags = SA_RESTART\<rparr>,
             SIGINT := \<lparr>sa_handler = Handler_signal_handler,
                        sa_mask = {SIGTERM, SIGINT, SIGHUP, SIGUSR1, SIGUSR2},
                        sa_flags = SA_RESTART\<rparr>,
             SIGPIPE := \<lparr>sa_handler = Handler_signal_handler,
                         sa_mask = {SIGTERM, SIGINT, SIGHUP, SIGUSR1, SIGUSR2},
                         sa_flags = SA_RESTART\<rparr>),
        sig_trace := sig_trace s @ [Log_debug_initialized]\<rparr>" by simp
  have cfg: "sig_config (managers s1 p) = signal_manager_default_config"
    and ref: "sigaction_refused s1 = sigaction_refused s"
    and disp: "disposition s1 = (disposition s)
            (SIGTERM := \<lparr>sa_handler = Handler_signal_handler,
                         sa_mask = {SIGTERM, SIGINT, SIGHUP, SIGUSR1, SIGUSR2},
                         sa_flags = SA_RESTART\<rparr>,
             SIGINT := \<lparr>sa_handler = Handler_signal_handler,
                        sa_mask = {SIGTERM, SIGINT, SIGHUP, SIGUSR1, SIGUSR2},
                        sa_flags = SA_RESTART\<rparr>,
             SIGPIPE := \<lparr>sa_handler = Handler_signal_handler,
                         sa_mask = {SIGTERM, SIGINT, SIGHUP, SIGUSR1, SIGUSR2},
                         sa_flags = SA_RESTART\<rparr>)"
    and glob: "global_signal_manager s1 = Some p"
    by (simp_all add: s1 zero_signal_manager_def)
  have cl: "disposition (signal_manager_cleanup s1 (Some p)) =
     (disposition s1)
        (SIGTERM := \<lparr>sa_handler = SIG_DFL, sa_mask = {}, sa_flags = 0\<rparr>,
         SIGINT := \<lparr>sa_handler = SIG_DFL, sa_mask = {}, sa_flags = 0\<rparr>,
         SIGPIPE := \<lparr>sa_handler = SIG_DFL, sa_mask = {}, sa_flags = 0\<rparr>)"
    by (rule cleanup_default_disposition) (use cfg ref nr in simp_all)
  show "\<forall>signum \<in> {SIGTERM, SIGINT, SIGPIPE}.
           sa_handler (disposition s1 signum) = Handler_signal_handler
           \<and> disposition (signal_manager_cleanup s1 (Some p)) signum =
               \<lparr>sa_handler = SIG_DFL, sa_mask = {}, sa_flags = 0\<rparr>"
    by (simp add: cl disp SIGTERM_def SIGINT_def SIGPIPE_def)
  show "\<forall>signum. signum \<notin> {SIGTERM, SIGINT, SIGPIPE} \<longrightarrow>
             disposition (signal_manager_cleanup s1 (Some p)) signum = disposition s signum"
    by (simp add: cl disp)
  show "global_signal_manager s1 = Some p" by (rule glob)
  show "global_signal_manager (signal_manager_cleanup s1 (Some p)) = None"
    by (simp add: signal_manager_cleanup_def Let_def glob)
next
  assume "\<not> sigaction_refused s SIGTERM \<and> \<not> sigaction_refused s SIGINT
        \<and> \<not> sigaction_refused s SIGPIPE"
  then show "fst (signal_manager_init s (Some p) (Some signal_manager_default_config)) = SIGNAL_OK"
    by (simp add: init_default_state)
qed (simp_all add: signal_manager_default_config_def)

theorem default_config_round_trip_witness:
  "fst (signal_manager_init example_signal_state (Some 0) (Some signal_manager_default_config))
     = SIGNAL_OK
   \<and> sa_handler (disposition
        (snd (signal_manager_init example_signal_state (Some 0)
                (Some signal_manager_default_config))) SIGTERM) = Handler_signal_handler
   \<and> disposition (signal_manager_cleanup
        (snd (signal_manager_init example_signal_state (Some 0)
                (Some signal_manager_default_config))) (Some 0)) SIGTERM =
       \<lparr>sa_handler = SIG_DFL, sa_mask = {}, sa_flags = 0\<rparr>
   \<and> disposition (signal_manager_cleanup
        (snd (signal_manager_init example_signal_state (Some 0)
                (Some signal_manager_default_config))) (Some 0)) SIGINT =
       \<lparr>sa_handler = SIG_DFL, sa_mask = {}, sa_flags = 0\<rparr>
   \<and> disposition (signal_manager_cleanup
        (snd (signal_manager_init example_signal_state (Some 0)
                (Some signal_manager_default_config))) (Some 0)) SIGPIPE =
       \<lparr>sa_handler = SIG_DFL, sa_mask = {}, sa_flags = 0\<rparr>"
proof -
  note inst = default_config_round_trip [where s = example_signal_state and p = 0
      and ?s1.0 = "snd (signal_manager_init example_signal_state (Some 0)
                          (Some signal_manager_default_config))"]
  have "\<not> sigaction_refused example_signal_state SIGTERM
        \<and> \<not> sigaction_refused example_signal_state SIGINT
        \<and> \<not> sigaction_refused example_signal_state SIGPIPE"
    by (simp add: example_signal_state_def)
  with inst have ok: "fst (signal_manager_init example_signal_state (Some 0)
                            (Some signal_manager_default_config)) = SIGNAL_OK"
    by blast
  then have "signal_manager_init example_signal_state (Some 0)
               (Some signal_manager_default_config) =
             (SIGNAL_OK, snd (signal_manager_init example_signal_state (Some 0)
                                (Some signal_manager_default_config)))"
    by (simp add: prod_eq_iff)
  with inst ok show ?thesis by simp
qed

subsection \<open>The shutdown flag\<close>

lemma invoke_frame [simp]:
  "managers (invoke cb signum e s) = managers s"
  "global_signal_manager (invoke cb signum e s) = global_signal_manager s"
  by (simp_all add: invoke_def split: option.splits)

lemma handler_keeps_shutdown:
  "shutdown_requested (managers s p) \<noteq> 0 \<Longrightarrow>
     shutdown_requested (managers (signal_handler s signum) p) \<noteq> 0"
  by (auto simp add: signal_handler_def Let_def split: option.splits)

lemma run_op_keeps_shutdown:
  assumes "shutdown_requested (managers s p) \<noteq> 0" "\<not> clears_shutdown p op"
  shows "shutdown_requested (managers (run_op s op) p) \<noteq> 0"
proof (cases op)
  case (Handler_runs signum)
  with assms show ?thesis by (simp add: handler_keeps_shutdown)
next
  case (Call_set_handler q signum cb)
  with assms show ?thesis
    by (simp add: signal_manager_set_handler_def Let_def split: option.splits)
next
  case (Call_reset_reload q)
  with assms show ?thesis
    by (simp add: signal_manager_reset_reload_def split: option.splits)
next
  case (Call_reset_shutdown q)
  with assms show ?thesis
    by (auto simp add: signal_manager_reset_shutdown_def split: option.splits)
next
  case (Call_init q cfg)
  with assms show ?thesis
  proof (cases q)
    case None
    with assms Call_init show ?thesis by (simp add: signal_manager_init_def)
  next
    case (Some a)
    with assms Call_init show ?thesis by (simp add: init_managers)
  qed
next
  case (Call_cleanup q)
  with assms show ?thesis
  proof (cases q)
    case None
    with assms Call_cleanup show ?thesis by (simp add: signal_manager_cleanup_def)
  next
    case (Some a)
    with assms Call_cleanup show ?thesis by (simp add: cleanup_managers)
  qed
qed (use assms in simp_all)

lemma run_ops_keeps_shutdown:
  "shutdown_requested (managers s p) \<noteq> 0 \<Longrightarrow> \<forall>op \<in> set ops. \<not> clears_shutdown p op \<Longrightarrow>
     shutdown_requested (managers (run_ops s ops) p) \<noteq> 0"
  by (induction ops arbitrary: s) (simp_all add: run_op_keeps_shutdown)

text \<open>
  C7, as the code has it. When the handler runs for \<open>SIGTERM\<close> or \<open>SIGINT\<close>,
  \<open>signal_manager_shutdown_requested\<close> of the manager that the global reference points
  to is true afterwards. Once true for a manager it stays true across every sequence of
  handler runs for any signals, reads, \<open>signal_manager_set_handler\<close> and
  \<open>signal_manager_reset_reload\<close> calls, and calls on other managers. It is cleared by
  \<open>signal_manager_reset_shutdown\<close>, and also by \<open>signal_manager_cleanup\<close> and
  \<open>signal_manager_init\<close> of that manager, which zero the whole structure. The handler
  for \<open>SIGHUP\<close> sets the reload flag and leaves the shutdown flag of every manager as it
  was.
\<close>

theorem shutdown_flag_sticky:
  "(global_signal_manager s = Some p \<and> (signum = SIGTERM \<or> signum = SIGINT) \<longrightarrow>
      signal_manager_shutdown_requested (signal_handler s signum) (Some p))
   \<and> (signal_manager_shutdown_requested s (Some p)
        \<and> (\<forall>op \<in> set ops. \<not> clears_shutdown p op) \<longrightarrow>
        signal_manager_shutdown_requested (run_ops s ops) (Some p))
   \<and> \<not> signal_manager_shutdown_requested (signal_manager_reset_shutdown s (Some p)) (Some p)
   \<and> \<not> signal_manager_shutdown_requested (signal_manager_cleanup s (Some p)) (Some p)
   \<and> \<not> signal_manager_shutdown_requested (snd (signal_manager_init s (Some p) cfg)) (Some p)
   \<and> signal_manager_shutdown_requested (signal_handler s SIGHUP) q =
       signal_manager_shutdown_requested s q
   \<and> (global_signal_manager s = Some p \<longrightarrow>
        signal_manager_reload_requested (signal_handler s SIGHUP) (Some p))"
proof (intro conjI impI)
  assume "global_signal_manager s = Some p \<and> (signum = SIGTERM \<or> signum = SIGINT)"
  then show "signal_manager_shutdown_requested (signal_handler s signum) (Some p)"
    by (auto simp add: signal_manager_shutdown_requested_def signal_handler_def Let_def)
next
  assume "signal_manager_shutdown_requested s (Some p)
        \<and> (\<forall>op \<in> set ops. \<not> clears_shutdown p op)"
  then show "signal_manager_shutdown_requested (run_ops s ops) (Some p)"
    by (simp add: signal_manager_shutdown_requested_def run_ops_keeps_shutdown)
next
  show "\<not> signal_manager_shutdown_requested (signal_manager_reset_shutdown s (Some p)) (Some p)"
    by (simp add: signal_manager_shutdown_requested_def signal_manager_reset_shutdown_def)
next
  show "\<not> signal_manager_shutdown_requested (signal_manager_cleanup s (Some p)) (Some p)"
    by (simp add: signal_manager_shutdown_requested_def cleanup_managers zero_signal_manager_def)
next
  show "\<not> signal_manager_shutdown_requested (snd (signal_manager_init s (Some p) cfg)) (Some p)"
    by (simp add: signal_manager_shutdown_requested_def init_managers zero_signal_manager_def)
next
  show "signal_manager_shutdown_requested (signal_handler s SIGHUP) q =
       signal_manager_shutdown_requested s q"
    by (simp add: signal_manager_shutdown_requested_def signal_handler_def Let_def
        SIGHUP_def SIGTERM_def SIGINT_def split: option.splits)
next
  assume "global_signal_manager s = Some p"
  then show "signal_manager_reload_requested (signal_handler s SIGHUP) (Some p)"
    by (simp add: signal_manager_reload_requested_def signal_handler_def Let_def
        SIGHUP_def SIGTERM_def SIGINT_def)
qed

theorem shutdown_flag_sticky_witness:
  "signal_manager_shutdown_requested
     (signal_handler (snd (signal_manager_init example_signal_state (Some 0) None)) SIGTERM)
     (Some 0)
   \<and> signal_manager_shutdown_requested
       (run_ops
          (signal_handler (snd (signal_manager_init example_signal_state (Some 0) None)) SIGTERM)
          [Handler_runs SIGHUP, Call_set_handler (Some 0) SIGTERM (Some 1),
           Call_reset_reload (Some 0), Handler_runs SIGUSR1, Call_shutdown_requested (Some 0),
           Call_reset_shutdown (Some 1)])
       (Some 0)
   \<and> signal_manager_reload_requested
       (signal_handler (snd (signal_manager_init example_signal_state (Some 0) None)) SIGHUP)
       (Some 0)"
proof -
  have g: "global_signal_manager (snd (signal_manager_init example_signal_state (Some 0) None))
             = Some 0"
    by (simp add: init_global)
  from g shutdown_flag_sticky [where p = 0 and signum = SIGTERM
      and s = "snd (signal_manager_init example_signal_state (Some 0) None)"]
  have a: "signal_manager_shutdown_requested
     (signal_handler (snd (signal_manager_init example_signal_state (Some 0) None)) SIGTERM)
     (Some 0)"
    by simp
  from a shutdown_flag_sticky [where p = 0
      and s = "signal_handler (snd (signal_manager_init example_signal_state (Some 0) None))
                 SIGTERM"
      and ops = "[Handler_runs SIGHUP, Call_set_handler (Some 0) SIGTERM (Some 1),
           Call_reset_reload (Some 0), Handler_runs SIGUSR1, Call_shutdown_requested (Some 0),
           Call_reset_shutdown (Some 1)]"]
  have b: "signal_manager_shutdown_requested
       (run_ops
          (signal_handler (snd (signal_manager_init example_signal_state (Some 0) None)) SIGTERM)
          [Handler_runs SIGHUP, Call_set_handler (Some 0) SIGTERM (Some 1),
           Call_reset_reload (Some 0), Handler_runs SIGUSR1, Call_shutdown_requested (Some 0),
           Call_reset_shutdown (Some 1)])
       (Some 0)"
    by simp
  from g shutdown_flag_sticky [where p = 0
      and s = "snd (signal_manager_init example_signal_state (Some 0) None)"]
  have c: "signal_manager_reload_requested
       (signal_handler (snd (signal_manager_init example_signal_state (Some 0) None)) SIGHUP)
       (Some 0)"
    by simp
  from a b c show ?thesis by simp
qed

text \<open>
  C7 as stated fails where it names \<open>signal_manager_reset_shutdown\<close> as the only
  operation that clears the flag: after an initialisation and a \<open>SIGTERM\<close> the flag is
  true, and after \<open>signal_manager_cleanup\<close>, with no reset call, it is false.
\<close>

theorem shutdown_cleared_by_cleanup:
  "signal_manager_shutdown_requested
     (run_ops example_signal_state [Call_init (Some 0) None, Handler_runs SIGTERM]) (Some 0)
   \<and> \<not> signal_manager_shutdown_requested
     (run_ops example_signal_state
        [Call_init (Some 0) None, Handler_runs SIGTERM, Call_cleanup (Some 0)]) (Some 0)
   \<and> Call_reset_shutdown (Some 0) \<notin>
       set [Call_init (Some 0) None, Handler_runs SIGTERM, Call_cleanup (Some 0)]"
  by (simp add: signal_manager_shutdown_requested_def cleanup_managers zero_signal_manager_def
      signal_handler_def init_managers Let_def signal_manager_init_def case_prod_beta
      example_signal_state_def)

subsection \<open>The fork loop\<close>

lemma close_parent_handles_result:
  "i \<le> length ws \<Longrightarrow> close_parent_handles ws j i tr = (ws', tr') \<Longrightarrow>
     length ws' = length ws
     \<and> (\<forall>n < length ws. ws' ! n =
          (if j \<le> n \<and> n < i \<and> 0 < eventfd (ws ! n) then (ws ! n)\<lparr>eventfd := - 1\<rparr> else ws ! n))
     \<and> tr' = tr @ map (\<lambda>n. Sys_close (eventfd (ws ! n)))
                     (filter (\<lambda>n. 0 < eventfd (ws ! n)) [j..<i])"
proof (induction ws j i tr arbitrary: ws' tr' rule: close_parent_handles.induct)
  case (1 ws j i tr)
  show ?case
  proof (cases "j < i")
    case False
    with "1.prems" show ?thesis by (simp add: close_parent_handles.simps)
  next
    case True
    note j = True
    have upt: "[j..<i] = j # [Suc j..<i]" using j by (simp add: upt_conv_Cons)
    show ?thesis
    proof (cases "0 < eventfd (ws ! j)")
      case True
      let ?ws1 = "ws[j := (ws ! j)\<lparr>eventfd := - 1\<rparr>]"
      from "1.prems" j True
      have rec: "close_parent_handles ?ws1 (Suc j) i (tr @ [Sys_close (eventfd (ws ! j))]) = (ws', tr')"
        by (simp add: close_parent_handles.simps [of ws j])
      from "1.prems" have len: "i \<le> length ?ws1" by simp
      note ih = "1.IH"(1) [OF j True len rec]
      have same: "\<And>n. Suc j \<le> n \<Longrightarrow> ?ws1 ! n = ws ! n" by simp
      have flt: "filter (\<lambda>n. 0 < eventfd (?ws1 ! n)) [Suc j..<i]
                 = filter (\<lambda>n. 0 < eventfd (ws ! n)) [Suc j..<i]"
        by (rule filter_cong) (simp_all add: same)
      have mp: "map (\<lambda>n. Sys_close (eventfd (?ws1 ! n))) (filter (\<lambda>n. 0 < eventfd (ws ! n)) [Suc j..<i])
                = map (\<lambda>n. Sys_close (eventfd (ws ! n))) (filter (\<lambda>n. 0 < eventfd (ws ! n)) [Suc j..<i])"
        by (rule map_cong) (simp_all add: same)
      from ih have l: "length ws' = length ws" by simp
      from ih have tr: "tr' = tr @ map (\<lambda>n. Sys_close (eventfd (ws ! n)))
                     (filter (\<lambda>n. 0 < eventfd (ws ! n)) [j..<i])"
        using True by (simp add: upt flt mp)
      have nth: "\<forall>n < length ws. ws' ! n =
          (if j \<le> n \<and> n < i \<and> 0 < eventfd (ws ! n) then (ws ! n)\<lparr>eventfd := - 1\<rparr> else ws ! n)"
      proof (intro allI impI)
        fix n assume n: "n < length ws"
        from ih n have "ws' ! n =
          (if Suc j \<le> n \<and> n < i \<and> 0 < eventfd (?ws1 ! n) then (?ws1 ! n)\<lparr>eventfd := - 1\<rparr> else ?ws1 ! n)"
          by simp
        then show "ws' ! n =
          (if j \<le> n \<and> n < i \<and> 0 < eventfd (ws ! n) then (ws ! n)\<lparr>eventfd := - 1\<rparr> else ws ! n)"
          using n j True by (cases "n = j") (auto simp add: nth_list_update)
      qed
      from l nth tr show ?thesis by blast
    next
      case False
      from "1.prems" j False
      have rec: "close_parent_handles ws (Suc j) i tr = (ws', tr')"
        by (simp add: close_parent_handles.simps [of ws j])
      note ih = "1.IH"(2) [OF j False "1.prems"(1) rec]
      from ih have l: "length ws' = length ws" by simp
      from ih have tr: "tr' = tr @ map (\<lambda>n. Sys_close (eventfd (ws ! n)))
                     (filter (\<lambda>n. 0 < eventfd (ws ! n)) [j..<i])"
        using False by (simp add: upt)
      have nth: "\<forall>n < length ws. ws' ! n =
          (if j \<le> n \<and> n < i \<and> 0 < eventfd (ws ! n) then (ws ! n)\<lparr>eventfd := - 1\<rparr> else ws ! n)"
      proof (intro allI impI)
        fix n assume n: "n < length ws"
        from ih n have "ws' ! n =
          (if Suc j \<le> n \<and> n < i \<and> 0 < eventfd (ws ! n) then (ws ! n)\<lparr>eventfd := - 1\<rparr> else ws ! n)"
          by simp
        then show "ws' ! n =
          (if j \<le> n \<and> n < i \<and> 0 < eventfd (ws ! n) then (ws ! n)\<lparr>eventfd := - 1\<rparr> else ws ! n)"
          using n j False by (cases "n = j") auto
      qed
      from l nth tr show ?thesis by blast
    qed
  qed
qed

lemma handshakes_empty [simp]: "handshakes os cs i i = []"
  by (simp add: handshakes_def)

lemma handshakes_snoc: "i \<le> k \<Longrightarrow> handshakes os cs i (Suc k) = handshakes os cs i k @ handshake os cs k"
  by (simp add: handshakes_def)

lemma handshakes_Cons: "i < k \<Longrightarrow> handshakes os cs i k = handshake os cs i @ handshakes os cs (Suc i) k"
  by (simp add: handshakes_def upt_conv_Cons)

lemma fork_loop_parent_step:
  assumes "int i < worker_count (config m)" "spawned os i"
    "workers m = Points_to ws" "cpu_ids (config m) = Points_to cs"
    "i < length ws" "i < length cs"
  shows "worker_manager_fork_loop os m i tr =
         worker_manager_fork_loop os
           (m\<lparr>workers := Points_to (ws[i := \<lparr>worker_id = int i, cpu_id = cs ! i,
                                            eventfd = - 1, pid = fork_result os i\<rparr>])\<rparr>)
           (Suc i) (tr @ handshake os cs i)"
  using assms
  by (subst worker_manager_fork_loop.simps) (auto simp add: spawned_def handshake_def Let_def)

lemma fork_loop_unroll:
  assumes "workers m = Points_to ws" "cpu_ids (config m) = Points_to cs"
    "k \<le> length ws" "k \<le> length cs" "int k \<le> worker_count (config m)" "i \<le> k"
    "\<forall>j. i \<le> j \<and> j < k \<longrightarrow> spawned os j"
  shows "\<exists>ws'. length ws' = length ws
           \<and> (\<forall>n. n < i \<or> k \<le> n \<longrightarrow> ws' ! n = ws ! n)
           \<and> (\<forall>n. i \<le> n \<and> n < k \<longrightarrow>
                  ws' ! n = \<lparr>worker_id = int n, cpu_id = cs ! n, eventfd = - 1,
                             pid = fork_result os n\<rparr>)
           \<and> worker_manager_fork_loop os m i tr =
               worker_manager_fork_loop os (m\<lparr>workers := Points_to ws'\<rparr>) k
                 (tr @ handshakes os cs i k)"
  using assms(6,3,4,5,7)
proof (induction k rule: dec_induct)
  case base
  show ?case
    by (rule exI [where x = ws]) (simp add: assms(1) [symmetric])
next
  case (step n)
  from step.prems step.hyps have
    "\<exists>ws'. length ws' = length ws
           \<and> (\<forall>a. a < i \<or> n \<le> a \<longrightarrow> ws' ! a = ws ! a)
           \<and> (\<forall>a. i \<le> a \<and> a < n \<longrightarrow>
                  ws' ! a = \<lparr>worker_id = int a, cpu_id = cs ! a, eventfd = - 1,
                             pid = fork_result os a\<rparr>)
           \<and> worker_manager_fork_loop os m i tr =
               worker_manager_fork_loop os (m\<lparr>workers := Points_to ws'\<rparr>) n
                 (tr @ handshakes os cs i n)"
    by (intro step.IH) auto
  then obtain ws1 where ws1: "length ws1 = length ws"
    "\<forall>a. a < i \<or> n \<le> a \<longrightarrow> ws1 ! a = ws ! a"
    "\<forall>a. i \<le> a \<and> a < n \<longrightarrow>
                  ws1 ! a = \<lparr>worker_id = int a, cpu_id = cs ! a, eventfd = - 1,
                             pid = fork_result os a\<rparr>"
    "worker_manager_fork_loop os m i tr =
               worker_manager_fork_loop os (m\<lparr>workers := Points_to ws1\<rparr>) n
                 (tr @ handshakes os cs i n)"
    by blast
  let ?w = "\<lparr>worker_id = int n, cpu_id = cs ! n, eventfd = - 1, pid = fork_result os n\<rparr>"
  have st: "worker_manager_fork_loop os (m\<lparr>workers := Points_to ws1\<rparr>) n (tr @ handshakes os cs i n)
          = worker_manager_fork_loop os
              ((m\<lparr>workers := Points_to ws1\<rparr>)\<lparr>workers := Points_to (ws1[n := ?w])\<rparr>) (Suc n)
              ((tr @ handshakes os cs i n) @ handshake os cs n)"
    by (rule fork_loop_parent_step [where ws = ws1 and cs = cs])
      (use step.prems step.hyps ws1(1) assms(2) in auto)
  show ?case
  proof (intro exI [where x = "ws1[n := ?w]"] conjI allI impI)
    show "length (ws1[n := ?w]) = length ws" using ws1(1) by simp
  next
    fix a assume "a < i \<or> Suc n \<le> a"
    then show "ws1[n := ?w] ! a = ws ! a" using ws1(2) step.hyps by auto
  next
    fix a assume a: "i \<le> a \<and> a < Suc n"
    show "ws1[n := ?w] ! a = \<lparr>worker_id = int a, cpu_id = cs ! a, eventfd = - 1,
                             pid = fork_result os a\<rparr>"
    proof (cases "a = n")
      case True
      then show ?thesis using step.prems ws1(1) by simp
    next
      case False
      with a ws1(3) show ?thesis by simp
    qed
  next
    show "worker_manager_fork_loop os m i tr =
            worker_manager_fork_loop os (m\<lparr>workers := Points_to (ws1[n := ?w])\<rparr>) (Suc n)
              (tr @ handshakes os cs i (Suc n))"
      using ws1(4) st step.hyps by (simp add: handshakes_snoc)
  qed
qed

lemma filter_is_fork_handshake [simp]:
  "filter is_fork (handshake os cs j) = [Sys_fork (fork_result os j)]"
  by (simp add: handshake_def)

lemma forks_in_handshakes: "length (filter is_fork (handshakes os cs i k)) = k - i"
proof (cases "i \<le> k")
  case True
  then show ?thesis
    by (induction k rule: dec_induct) (simp_all add: handshakes_snoc Suc_diff_le)
next
  case False
  then show ?thesis by (simp add: handshakes_def)
qed

lemma worker_branch_defined:
  assumes "worker_branch os m i efd tr = Some r"
  shows "\<exists>cs. cpu_ids (config m) = Points_to cs \<and> i < length cs
           \<and> (enable_affinity (config m) \<and> sched_setaffinity_result os (cs ! i) = - 1
                \<or> (\<exists>ws. workers m = Points_to ws \<and> i < length ws))"
  using assms
  by (auto simp add: worker_branch_def Let_def system_set_cpu_affinity_def
      split: c_ptr.splits if_splits)

lemma worker_branch_pin_failure:
  assumes "cpu_ids (config m) = Points_to cs" "i < length cs"
    "enable_affinity (config m)" "sched_setaffinity_result os (cs ! i) = - 1"
  shows "worker_branch os m i efd tr =
           Some (PROCESS_ERROR_INVALID_PARAM,
                 m\<lparr>type := PROCESS_TYPE_WORKER, current_worker_id := int i\<rparr>,
                 tr @ [Sys_sched_setaffinity (cs ! i) (- 1), Sys_close efd])"
  using assms by (simp add: worker_branch_def Let_def system_set_cpu_affinity_def)

lemma worker_branch_success:
  assumes "cpu_ids (config m) = Points_to cs" "i < length cs"
    "workers m = Points_to ws" "i < length ws"
    "\<not> (enable_affinity (config m) \<and> sched_setaffinity_result os (cs ! i) = - 1)"
  shows "\<exists>ws'. worker_branch os m i efd tr =
           Some (PROCESS_OK,
                 m\<lparr>type := PROCESS_TYPE_WORKER, current_worker_id := int i,
                   workers := Points_to ws'\<rparr>,
                 tr @ (if enable_affinity (config m)
                       then [Sys_sched_setaffinity (cs ! i) (sched_setaffinity_result os (cs ! i))]
                       else [])
                    @ map (\<lambda>n. Sys_close (eventfd (ws ! n)))
                        (filter (\<lambda>n. 0 < eventfd (ws ! n)) [0..<i]))
           \<and> length ws' = length ws
           \<and> ws' ! i = (ws ! i)\<lparr>eventfd := efd, cpu_id := cs ! i\<rparr>
           \<and> (\<forall>n < i. ws' ! n = (if 0 < eventfd (ws ! n) then (ws ! n)\<lparr>eventfd := - 1\<rparr>
                                  else ws ! n))
           \<and> (\<forall>n. i < n \<and> n < length ws \<longrightarrow> ws' ! n = ws ! n)"
proof -
  let ?ws1 = "ws[i := (ws ! i)\<lparr>eventfd := efd, cpu_id := cs ! i\<rparr>]"
  let ?aff = "if enable_affinity (config m)
              then [Sys_sched_setaffinity (cs ! i) (sched_setaffinity_result os (cs ! i))]
              else []"
  obtain ws' tr' where cl: "close_parent_handles ?ws1 0 i (tr @ ?aff) = (ws', tr')"
    by (cases "close_parent_handles ?ws1 0 i (tr @ ?aff)") blast
  from assms(4) have len: "i \<le> length ?ws1" by simp
  note res = close_parent_handles_result [OF len cl]
  have same: "\<And>n. n < i \<Longrightarrow> ?ws1 ! n = ws ! n" by simp
  have flt: "filter (\<lambda>n. 0 < eventfd (?ws1 ! n)) [0..<i] = filter (\<lambda>n. 0 < eventfd (ws ! n)) [0..<i]"
    by (rule filter_cong) (simp_all add: same)
  have mp: "map (\<lambda>n. Sys_close (eventfd (?ws1 ! n))) (filter (\<lambda>n. 0 < eventfd (ws ! n)) [0..<i])
            = map (\<lambda>n. Sys_close (eventfd (ws ! n))) (filter (\<lambda>n. 0 < eventfd (ws ! n)) [0..<i])"
    by (rule map_cong) (simp_all add: same)
  from res have tr': "tr' = tr @ ?aff @ map (\<lambda>n. Sys_close (eventfd (ws ! n)))
                        (filter (\<lambda>n. 0 < eventfd (ws ! n)) [0..<i])"
    by (simp add: flt mp)
  have run: "worker_branch os m i efd tr =
           Some (PROCESS_OK,
                 m\<lparr>type := PROCESS_TYPE_WORKER, current_worker_id := int i,
                   workers := Points_to ws'\<rparr>, tr')"
    using assms cl
    by (auto simp add: worker_branch_def Let_def system_set_cpu_affinity_def)
  from res assms(4) have l: "length ws' = length ws" by simp
  from res assms(4) have at_i: "ws' ! i = (ws ! i)\<lparr>eventfd := efd, cpu_id := cs ! i\<rparr>"
    by simp
  have below: "\<forall>n < i. ws' ! n = (if 0 < eventfd (ws ! n) then (ws ! n)\<lparr>eventfd := - 1\<rparr>
                                  else ws ! n)"
    using res assms(4) by simp
  have above: "\<forall>n. i < n \<and> n < length ws \<longrightarrow> ws' ! n = ws ! n"
    using res by simp
  from run tr' l at_i below above show ?thesis by blast
qed

lemma worker_branch_trace:
  assumes "worker_branch os m i efd tr0 = Some (e, m', tr)"
  shows "\<exists>suf. tr = tr0 @ suf \<and> filter is_fork suf = []"
proof -
  from worker_branch_defined [OF assms] obtain cs where
    cs: "cpu_ids (config m) = Points_to cs" "i < length cs"
    and alt: "enable_affinity (config m) \<and> sched_setaffinity_result os (cs ! i) = - 1
                \<or> (\<exists>ws. workers m = Points_to ws \<and> i < length ws)"
    by blast
  show ?thesis
  proof (cases "enable_affinity (config m) \<and> sched_setaffinity_result os (cs ! i) = - 1")
    case True
    with worker_branch_pin_failure [OF cs, of os efd tr0] assms show ?thesis by auto
  next
    case False
    with alt obtain ws where ws: "workers m = Points_to ws" "i < length ws" by blast
    from worker_branch_success [OF cs ws False, of efd tr0] assms
    show ?thesis by (auto simp add: filter_map o_def)
  qed
qed

lemma fork_loop_trace:
  "worker_manager_fork_loop os m i tr0 = Some (e, m', tr) \<Longrightarrow>
     \<exists>suf. tr = tr0 @ suf
       \<and> (\<forall>d < length (filter is_fork suf).
            (\<exists>rest. suf = handshakes os (cells (cpu_ids (config m))) i (i + d)
                        @ Sys_eventfd (eventfd_result os (i + d))
                        # Sys_fork (fork_result os (i + d)) # rest)
            \<and> (\<forall>j. i \<le> j \<and> j < i + d \<longrightarrow> spawned os j))"
proof (induction os m i tr0 arbitrary: e m' tr rule: worker_manager_fork_loop.induct)
  case (1 os m i tr0)
  let ?efd = "eventfd_result os i" and ?p = "fork_result os i"
  let ?cs = "cells (cpu_ids (config m))"
  note run = "1.prems" [unfolded worker_manager_fork_loop.simps [of os m i tr0]]
  show ?case
  proof (cases "int i < worker_count (config m)")
    case False
    with run show ?thesis by auto
  next
    case inside: True
    show ?thesis
    proof (cases "?efd = - 1")
      case True
      with run inside show ?thesis by (auto simp add: Let_def)
    next
      case efd: False
      show ?thesis
      proof (cases "?p = - 1")
        case True
        with run inside efd have "tr = tr0 @ [Sys_eventfd ?efd, Sys_fork ?p, Sys_close ?efd]"
          by (auto simp add: Let_def)
        then show ?thesis by auto
      next
        case nofail: False
        show ?thesis
        proof (cases "0 < ?p")
          case False
          with run inside efd nofail
          have "worker_branch os m i ?efd (tr0 @ [Sys_eventfd ?efd, Sys_fork ?p]) = Some (e, m', tr)"
            by (simp add: Let_def)
          from worker_branch_trace [OF this] obtain suf where
            "tr = (tr0 @ [Sys_eventfd ?efd, Sys_fork ?p]) @ suf" "filter is_fork suf = []"
            by blast
          then have "tr = tr0 @ (Sys_eventfd ?efd # Sys_fork ?p # suf)"
            "length (filter is_fork (Sys_eventfd ?efd # Sys_fork ?p # suf)) = 1"
            by simp_all
          then show ?thesis by (intro exI [where x = "Sys_eventfd ?efd # Sys_fork ?p # suf"]) auto
        next
          case parent: True
          from run inside efd nofail parent obtain ws cs where
            ws: "workers m = Points_to ws" "i < length ws"
            and cs: "cpu_ids (config m) = Points_to cs" "i < length cs"
            by (auto simp add: Let_def split: c_ptr.splits if_splits)
          let ?r = "eventfd_read_result os i"
          let ?w = "\<lparr>worker_id = int i, cpu_id = cs ! i, eventfd = ?efd, pid = ?p\<rparr>"
          show ?thesis
          proof (cases "?r = - 1")
            case True
            with run inside efd nofail parent ws cs
            have "tr = tr0 @ [Sys_eventfd ?efd, Sys_fork ?p, Sys_eventfd_read ?efd ?r, Sys_close ?efd]"
              by (auto simp add: Let_def)
            then show ?thesis by auto
          next
            case rd: False
            let ?m2 = "m\<lparr>workers := Points_to (ws[i := ?w\<lparr>eventfd := - 1\<rparr>])\<rparr>"
            let ?tr2 = "tr0 @ [Sys_eventfd ?efd, Sys_fork ?p, Sys_eventfd_read ?efd ?r,
                              Sys_close ?efd, Log_info_worker_running (int i) (cs ! i) ?p]"
            from run inside efd nofail parent ws cs rd
            have rec: "worker_manager_fork_loop os ?m2 (Suc i) ?tr2 = Some (e, m', tr)"
              by (simp add: Let_def)
            have ih: "\<exists>suf. tr = ?tr2 @ suf
               \<and> (\<forall>d < length (filter is_fork suf).
                    (\<exists>rest. suf = handshakes os (cells (cpu_ids (config ?m2))) (Suc i) (Suc i + d)
                                @ Sys_eventfd (eventfd_result os (Suc i + d))
                                # Sys_fork (fork_result os (Suc i + d)) # rest)
                    \<and> (\<forall>j. Suc i \<le> j \<and> j < Suc i + d \<longrightarrow> spawned os j))"
              by (rule "1.IH" [OF inside refl efd refl nofail parent refl ws(1) cs(1)
                    conjI [OF ws(2) cs(2)] refl refl rd rec])
            then obtain suf where suf: "tr = ?tr2 @ suf"
              and later: "\<forall>d < length (filter is_fork suf).
                    (\<exists>rest. suf = handshakes os cs (Suc i) (Suc i + d)
                                @ Sys_eventfd (eventfd_result os (Suc i + d))
                                # Sys_fork (fork_result os (Suc i + d)) # rest)
                    \<and> (\<forall>j. Suc i \<le> j \<and> j < Suc i + d \<longrightarrow> spawned os j)"
              using cs by auto
            have hs: "handshake os cs i = [Sys_eventfd ?efd, Sys_fork ?p, Sys_eventfd_read ?efd ?r,
                              Sys_close ?efd, Log_info_worker_running (int i) (cs ! i) ?p]"
              by (simp add: handshake_def)
            have sp: "spawned os i" using efd parent rd by (simp add: spawned_def)
            let ?suf = "handshake os cs i @ suf"
            have tr: "tr = tr0 @ ?suf" using suf hs by simp
            have "\<forall>d < length (filter is_fork ?suf).
                    (\<exists>rest. ?suf = handshakes os ?cs i (i + d)
                                @ Sys_eventfd (eventfd_result os (i + d))
                                # Sys_fork (fork_result os (i + d)) # rest)
                    \<and> (\<forall>j. i \<le> j \<and> j < i + d \<longrightarrow> spawned os j)"
            proof (intro allI impI)
              fix d assume d: "d < length (filter is_fork ?suf)"
              show "(\<exists>rest. ?suf = handshakes os ?cs i (i + d)
                                @ Sys_eventfd (eventfd_result os (i + d))
                                # Sys_fork (fork_result os (i + d)) # rest)
                    \<and> (\<forall>j. i \<le> j \<and> j < i + d \<longrightarrow> spawned os j)"
              proof (cases d)
                case 0
                then show ?thesis by (auto simp add: hs)
              next
                case (Suc d')
                with d have "d' < length (filter is_fork suf)" by simp
                with later obtain rest where
                  rest: "suf = handshakes os cs (Suc i) (Suc i + d')
                                @ Sys_eventfd (eventfd_result os (Suc i + d'))
                                # Sys_fork (fork_result os (Suc i + d')) # rest"
                  and sps: "\<forall>j. Suc i \<le> j \<and> j < Suc i + d' \<longrightarrow> spawned os j"
                  by blast
                have "handshakes os cs i (i + d) = handshake os cs i @ handshakes os cs (Suc i) (i + d)"
                  using Suc by (intro handshakes_Cons) simp
                with rest Suc cs have "?suf = handshakes os ?cs i (i + d)
                                @ Sys_eventfd (eventfd_result os (i + d))
                                # Sys_fork (fork_result os (i + d)) # rest"
                  by simp
                moreover have "\<forall>j. i \<le> j \<and> j < i + d \<longrightarrow> spawned os j"
                proof (intro allI impI)
                  fix j assume "i \<le> j \<and> j < i + d"
                  then show "spawned os j" using sp sps Suc by (cases "j = i") auto
                qed
                ultimately show ?thesis by blast
              qed
            qed
            with tr show ?thesis by blast
          qed
        qed
      qed
    qed
  qed
qed

text \<open>
  On a manager whose arrays cover \<open>worker_count\<close> slots, as \<open>worker_manager_init\<close>
  leaves it, the loop has a defined result in every environment.
\<close>

lemma worker_branch_returns:
  assumes "cpu_ids (config m) = Points_to cs" "i < length cs"
    "workers m = Points_to ws" "i < length ws"
  shows "\<exists>r. worker_branch os m i efd tr = Some r"
proof (cases "enable_affinity (config m) \<and> sched_setaffinity_result os (cs ! i) = - 1")
  case True
  with worker_branch_pin_failure [OF assms(1,2), of os efd tr] show ?thesis by simp
next
  case False
  from worker_branch_success [OF assms False, of efd tr] show ?thesis by blast
qed

lemma fork_loop_returns:
  "workers m = Points_to ws \<Longrightarrow> cpu_ids (config m) = Points_to cs \<Longrightarrow>
   nat (worker_count (config m)) \<le> length ws \<Longrightarrow>
   nat (worker_count (config m)) \<le> length cs \<Longrightarrow>
     \<exists>r. worker_manager_fork_loop os m i tr = Some r"
proof (induction os m i tr arbitrary: ws rule: worker_manager_fork_loop.induct)
  case (1 os m i tr)
  let ?efd = "eventfd_result os i" and ?p = "fork_result os i"
  let ?r = "eventfd_read_result os i"
  show ?case
  proof (cases "int i < worker_count (config m) \<and> ?efd \<noteq> - 1 \<and> ?p \<noteq> - 1")
    case False
    then show ?thesis
      by (subst worker_manager_fork_loop.simps) (auto simp add: Let_def)
  next
    case True
    with "1.prems" have bounds: "i < length ws" "i < length cs" by auto
    show ?thesis
    proof (cases "0 < ?p")
      case False
      with True worker_branch_returns [OF "1.prems"(2) bounds(2) "1.prems"(1) bounds(1)]
      show ?thesis
        by (subst worker_manager_fork_loop.simps) (simp add: Let_def)
    next
      case parent: True
      show ?thesis
      proof (cases "?r = - 1")
        case True
        with \<open>int i < worker_count (config m) \<and> ?efd \<noteq> - 1 \<and> ?p \<noteq> - 1\<close> parent bounds "1.prems"
        show ?thesis
          by (subst worker_manager_fork_loop.simps) (simp add: Let_def)
      next
        case rd: False
        let ?w = "\<lparr>worker_id = int i, cpu_id = cs ! i, eventfd = ?efd, pid = ?p\<rparr>"
        let ?m2 = "m\<lparr>workers := Points_to (ws[i := ?w\<lparr>eventfd := - 1\<rparr>])\<rparr>"
        have "\<exists>r. worker_manager_fork_loop os ?m2 (Suc i)
                (tr @ [Sys_eventfd ?efd, Sys_fork ?p, Sys_eventfd_read ?efd ?r,
                       Sys_close ?efd, Log_info_worker_running (int i) (cs ! i) ?p]) = Some r"
          using True parent rd bounds "1.prems"
          by (intro "1.IH" [where ws = "ws[i := ?w\<lparr>eventfd := - 1\<rparr>]"
                and ?x3.0 = ws and ?x3a = cs]) auto
        with True parent rd bounds "1.prems" show ?thesis
          by (subst worker_manager_fork_loop.simps) (simp add: Let_def)
      qed
    qed
  qed
qed

lemma fork_workers_returns:
  assumes "workers m = Points_to ws" "cpu_ids (config m) = Points_to cs"
    "nat (worker_count (config m)) \<le> length ws" "nat (worker_count (config m)) \<le> length cs"
  shows "\<exists>r. worker_manager_fork_workers os (Some m) = Some r"
  using fork_loop_returns [OF assms, of os 0 "[]"]
  by (auto simp add: worker_manager_fork_workers_def)

text \<open>
  C1. Take the loop at iteration \<open>i\<close>, in any state, in the process to which \<open>fork\<close>
  returns 0. The run sets the worker type and the index \<open>i\<close>. With affinity enabled
  it pins to \<open>cpu_ids[i]\<close>; when that fails it closes its channel and returns
  \<open>PROCESS_ERROR_INVALID_PARAM\<close>. Otherwise it records its own channel handle and its
  CPU in slot \<open>i\<close>, closes the handle of every slot below \<open>i\<close> that is recorded as open
  (a descriptor greater than zero) and marks it \<open>-1\<close>, leaves the slots above \<open>i\<close> as
  they are and returns \<open>PROCESS_OK\<close>. The events after the \<open>fork\<close> are the pinning and
  these closes only: no channel is created and no process is forked for a later index.
\<close>

theorem child_continuation:
  assumes "int i < worker_count (config m)" "eventfd_result os i \<noteq> - 1" "fork_result os i = 0"
    "cpu_ids (config m) = Points_to cs" "i < length cs"
    "workers m = Points_to ws" "i < length ws"
  shows
    "(enable_affinity (config m) \<and> sched_setaffinity_result os (cs ! i) = - 1 \<longrightarrow>
        worker_manager_fork_loop os m i tr =
          Some (PROCESS_ERROR_INVALID_PARAM,
                m\<lparr>type := PROCESS_TYPE_WORKER, current_worker_id := int i\<rparr>,
                tr @ [Sys_eventfd (eventfd_result os i), Sys_fork 0,
                      Sys_sched_setaffinity (cs ! i) (- 1), Sys_close (eventfd_result os i)]))
     \<and> (\<not> (enable_affinity (config m) \<and> sched_setaffinity_result os (cs ! i) = - 1) \<longrightarrow>
          (\<exists>ws'. worker_manager_fork_loop os m i tr =
             Some (PROCESS_OK,
                   m\<lparr>type := PROCESS_TYPE_WORKER, current_worker_id := int i,
                     workers := Points_to ws'\<rparr>,
                   tr @ [Sys_eventfd (eventfd_result os i), Sys_fork 0]
                      @ (if enable_affinity (config m)
                         then [Sys_sched_setaffinity (cs ! i)
                                 (sched_setaffinity_result os (cs ! i))]
                         else [])
                      @ map (\<lambda>n. Sys_close (eventfd (ws ! n)))
                          (filter (\<lambda>n. 0 < eventfd (ws ! n)) [0..<i]))
             \<and> length ws' = length ws
             \<and> ws' ! i = (ws ! i)\<lparr>eventfd := eventfd_result os i, cpu_id := cs ! i\<rparr>
             \<and> (\<forall>n < i. ws' ! n = (if 0 < eventfd (ws ! n) then (ws ! n)\<lparr>eventfd := - 1\<rparr>
                                    else ws ! n))
             \<and> (\<forall>n. i < n \<and> n < length ws \<longrightarrow> ws' ! n = ws ! n)))"
proof -
  have branch: "worker_manager_fork_loop os m i tr =
      worker_branch os m i (eventfd_result os i)
        (tr @ [Sys_eventfd (eventfd_result os i), Sys_fork 0])"
    using assms(1-3) by (subst worker_manager_fork_loop.simps) (simp add: Let_def)
  show ?thesis
  proof (intro conjI impI)
    assume "enable_affinity (config m) \<and> sched_setaffinity_result os (cs ! i) = - 1"
    then show "worker_manager_fork_loop os m i tr =
          Some (PROCESS_ERROR_INVALID_PARAM,
                m\<lparr>type := PROCESS_TYPE_WORKER, current_worker_id := int i\<rparr>,
                tr @ [Sys_eventfd (eventfd_result os i), Sys_fork 0,
                      Sys_sched_setaffinity (cs ! i) (- 1), Sys_close (eventfd_result os i)])"
      using worker_branch_pin_failure [OF assms(4,5), of os] by (simp add: branch)
  next
    assume ok: "\<not> (enable_affinity (config m) \<and> sched_setaffinity_result os (cs ! i) = - 1)"
    from worker_branch_success [OF assms(4-7) ok, of "eventfd_result os i"
        "tr @ [Sys_eventfd (eventfd_result os i), Sys_fork 0]"]
    show "\<exists>ws'. worker_manager_fork_loop os m i tr =
             Some (PROCESS_OK,
                   m\<lparr>type := PROCESS_TYPE_WORKER, current_worker_id := int i,
                     workers := Points_to ws'\<rparr>,
                   tr @ [Sys_eventfd (eventfd_result os i), Sys_fork 0]
                      @ (if enable_affinity (config m)
                         then [Sys_sched_setaffinity (cs ! i)
                                 (sched_setaffinity_result os (cs ! i))]
                         else [])
                      @ map (\<lambda>n. Sys_close (eventfd (ws ! n)))
                          (filter (\<lambda>n. 0 < eventfd (ws ! n)) [0..<i]))
             \<and> length ws' = length ws
             \<and> ws' ! i = (ws ! i)\<lparr>eventfd := eventfd_result os i, cpu_id := cs ! i\<rparr>
             \<and> (\<forall>n < i. ws' ! n = (if 0 < eventfd (ws ! n) then (ws ! n)\<lparr>eventfd := - 1\<rparr>
                                    else ws ! n))
             \<and> (\<forall>n. i < n \<and> n < length ws \<longrightarrow> ws' ! n = ws ! n)"
      by (simp add: branch)
  qed
qed

text \<open>
  The theorem at the second iteration of the example pool, in the child, with slot 0
  still recording the descriptor 10 as open: once with a pin that succeeds and once
  with a pin that fails.
\<close>

theorem child_continuation_witness:
  "(\<exists>ws'. worker_manager_fork_loop
            (example_os\<lparr>fork_result := (\<lambda>i. if i = 0 then 100 else 0)\<rparr>)
            (example_parent\<lparr>workers :=
               Points_to [\<lparr>worker_id = 0, cpu_id = 4, eventfd = 10, pid = 100\<rparr>,
                          zero_worker_context]\<rparr>)
            1 [] =
           Some (PROCESS_OK,
                 example_parent\<lparr>type := PROCESS_TYPE_WORKER, current_worker_id := 1,
                                workers := Points_to ws'\<rparr>,
                 [Sys_eventfd 11, Sys_fork 0, Sys_sched_setaffinity 6 0, Sys_close 10])
         \<and> ws' ! 1 = \<lparr>worker_id = 0, cpu_id = 6, eventfd = 11, pid = 0\<rparr>
         \<and> ws' ! 0 = \<lparr>worker_id = 0, cpu_id = 4, eventfd = - 1, pid = 100\<rparr>)
   \<and> worker_manager_fork_loop
        (example_os\<lparr>fork_result := (\<lambda>i. if i = 0 then 100 else 0),
                    sched_setaffinity_result := (\<lambda>cpu. - 1)\<rparr>)
        (example_parent\<lparr>workers :=
           Points_to [\<lparr>worker_id = 0, cpu_id = 4, eventfd = 10, pid = 100\<rparr>,
                      zero_worker_context]\<rparr>)
        1 [] =
       Some (PROCESS_ERROR_INVALID_PARAM,
             example_parent\<lparr>workers :=
                 Points_to [\<lparr>worker_id = 0, cpu_id = 4, eventfd = 10, pid = 100\<rparr>,
                            zero_worker_context],
               type := PROCESS_TYPE_WORKER, current_worker_id := 1\<rparr>,
             [Sys_eventfd 11, Sys_fork 0, Sys_sched_setaffinity 6 (- 1), Sys_close 11])"
proof -
  let ?os = "example_os\<lparr>fork_result := (\<lambda>i. if i = 0 then 100 else 0)\<rparr>"
  let ?os' = "example_os\<lparr>fork_result := (\<lambda>i. if i = 0 then 100 else 0),
                    sched_setaffinity_result := (\<lambda>cpu. - 1)\<rparr>"
  let ?ws = "[\<lparr>worker_id = 0, cpu_id = 4, eventfd = 10, pid = 100\<rparr>, zero_worker_context]"
  let ?m = "example_parent\<lparr>workers := Points_to ?ws\<rparr>"
  have h: "int (Suc 0) < worker_count (config ?m)" "eventfd_result ?os (Suc 0) \<noteq> - 1"
    "fork_result ?os (Suc 0) = 0" "cpu_ids (config ?m) = Points_to [4, 6]"
    "Suc 0 < length [4, 6 :: int]" "workers ?m = Points_to ?ws" "Suc 0 < length ?ws"
    by (simp_all add: example_parent_def example_config_def example_os_def)
  have h': "int (Suc 0) < worker_count (config ?m)" "eventfd_result ?os' (Suc 0) \<noteq> - 1"
    "fork_result ?os' (Suc 0) = 0" "cpu_ids (config ?m) = Points_to [4, 6]"
    "Suc 0 < length [4, 6 :: int]" "workers ?m = Points_to ?ws" "Suc 0 < length ?ws"
    by (simp_all add: example_parent_def example_config_def example_os_def)
  from child_continuation [OF h, of "[]"]
  have a: "\<exists>ws'. worker_manager_fork_loop ?os ?m 1 [] =
           Some (PROCESS_OK,
                 example_parent\<lparr>type := PROCESS_TYPE_WORKER, current_worker_id := 1,
                                workers := Points_to ws'\<rparr>,
                 [Sys_eventfd 11, Sys_fork 0, Sys_sched_setaffinity 6 0, Sys_close 10])
         \<and> ws' ! 1 = \<lparr>worker_id = 0, cpu_id = 6, eventfd = 11, pid = 0\<rparr>
         \<and> ws' ! 0 = \<lparr>worker_id = 0, cpu_id = 4, eventfd = - 1, pid = 100\<rparr>"
    by (auto simp add: example_parent_def example_config_def example_os_def
        zero_worker_context_def)
  from child_continuation [OF h', of "[]"]
  have b: "worker_manager_fork_loop ?os' ?m 1 [] =
       Some (PROCESS_ERROR_INVALID_PARAM,
             ?m\<lparr>type := PROCESS_TYPE_WORKER, current_worker_id := 1\<rparr>,
             [Sys_eventfd 11, Sys_fork 0, Sys_sched_setaffinity 6 (- 1), Sys_close 11])"
    by (simp add: example_parent_def example_config_def example_os_def)
  from a b show ?thesis by simp
qed

text \<open>
  C2. Let the handshakes for the workers below \<open>k\<close> complete, the channel for slot \<open>k\<close>
  be created and \<open>fork\<close> fail at \<open>k\<close>, for any \<open>k\<close> below \<open>worker_count\<close>. Then
  \<open>worker_manager_fork_workers\<close> closes the channel of slot \<open>k\<close> and returns
  \<open>PROCESS_ERROR_FORK\<close>; the events are the \<open>k\<close> handshakes followed by the creation
  of the channel, the failed \<open>fork\<close> and the close, so \<open>fork\<close> was called \<open>k + 1\<close>
  times and never for an index above \<open>k\<close>; the slots from \<open>k\<close> on are untouched.
\<close>

theorem fork_failure_aborts:
  assumes "workers m = Points_to ws" "cpu_ids (config m) = Points_to cs"
    "k \<le> length ws" "k \<le> length cs" "int k < worker_count (config m)"
    "\<forall>j < k. spawned os j" "eventfd_result os k \<noteq> - 1" "fork_result os k = - 1"
  shows "\<exists>ws'. worker_manager_fork_workers os (Some m) =
           Some (PROCESS_ERROR_FORK, Some (m\<lparr>workers := Points_to ws'\<rparr>),
                 handshakes os cs 0 k
                   @ [Sys_eventfd (eventfd_result os k), Sys_fork (- 1),
                      Sys_close (eventfd_result os k)])
         \<and> length (filter is_fork
              (handshakes os cs 0 k
                 @ [Sys_eventfd (eventfd_result os k), Sys_fork (- 1),
                    Sys_close (eventfd_result os k)])) = Suc k
         \<and> length ws' = length ws
         \<and> (\<forall>n. k \<le> n \<longrightarrow> ws' ! n = ws ! n)"
proof -
  from fork_loop_unroll [OF assms(1-4), of 0 os "[]"] assms(5,6)
  obtain ws' where ws': "length ws' = length ws" "\<forall>n. k \<le> n \<longrightarrow> ws' ! n = ws ! n"
    and un: "worker_manager_fork_loop os m 0 [] =
               worker_manager_fork_loop os (m\<lparr>workers := Points_to ws'\<rparr>) k
                 (handshakes os cs 0 k)"
    by auto
  have "worker_manager_fork_loop os (m\<lparr>workers := Points_to ws'\<rparr>) k (handshakes os cs 0 k) =
          Some (PROCESS_ERROR_FORK, m\<lparr>workers := Points_to ws'\<rparr>,
                handshakes os cs 0 k
                   @ [Sys_eventfd (eventfd_result os k), Sys_fork (- 1),
                      Sys_close (eventfd_result os k)])"
    using assms(5,7,8) by (subst worker_manager_fork_loop.simps) (simp add: Let_def)
  with un have "worker_manager_fork_workers os (Some m) =
           Some (PROCESS_ERROR_FORK, Some (m\<lparr>workers := Points_to ws'\<rparr>),
                 handshakes os cs 0 k
                   @ [Sys_eventfd (eventfd_result os k), Sys_fork (- 1),
                      Sys_close (eventfd_result os k)])"
    by (simp add: worker_manager_fork_workers_def)
  moreover have "length (filter is_fork
              (handshakes os cs 0 k
                 @ [Sys_eventfd (eventfd_result os k), Sys_fork (- 1),
                    Sys_close (eventfd_result os k)])) = Suc k"
    by (simp add: forks_in_handshakes)
  ultimately show ?thesis using ws' by blast
qed

text \<open>The theorem at the example pool, with the second \<open>fork\<close> failing.\<close>

theorem fork_failure_aborts_witness:
  "\<exists>ws'. worker_manager_fork_workers
            (example_os\<lparr>fork_result := (\<lambda>i. if i = 0 then 100 else - 1)\<rparr>)
            (Some example_parent) =
           Some (PROCESS_ERROR_FORK, Some (example_parent\<lparr>workers := Points_to ws'\<rparr>),
                 [Sys_eventfd 10, Sys_fork 100, Sys_eventfd_read 10 0, Sys_close 10,
                  Log_info_worker_running 0 4 100,
                  Sys_eventfd 11, Sys_fork (- 1), Sys_close 11])"
proof -
  let ?os = "example_os\<lparr>fork_result := (\<lambda>i. if i = 0 then 100 else - 1)\<rparr>"
  have h: "workers example_parent = Points_to [zero_worker_context, zero_worker_context]"
    "cpu_ids (config example_parent) = Points_to [4, 6]"
    "Suc 0 \<le> length [zero_worker_context, zero_worker_context]"
    "Suc 0 \<le> length [4, 6 :: int]"
    "int (Suc 0) < worker_count (config example_parent)"
    "\<forall>j < Suc 0. spawned ?os j"
    "eventfd_result ?os (Suc 0) \<noteq> - 1"
    "fork_result ?os (Suc 0) = - 1"
    by (simp_all add: example_parent_def example_config_def example_os_def spawned_def)
  from fork_failure_aborts [OF h]
  show ?thesis
    by (auto simp add: handshakes_def handshake_def example_os_def)
qed

text \<open>
  C3. In every run of \<open>worker_manager_fork_workers\<close> that returns, the \<open>fork\<close> calls
  are made in ascending index order and each one comes after the complete handshakes of
  all workers before it: if there is a \<open>fork\<close> number \<open>k\<close> (counting from 0), then the
  events up to it are exactly the handshakes for the workers \<open>0, ..., k - 1\<close> in this
  order, each one the creation of the channel, the spawn, the await on that channel and
  the close of the parent's handle, followed by the creation of the channel of slot
  \<open>k\<close> and the \<open>fork\<close> of iteration \<open>k\<close>; and each of those handshakes succeeded.
\<close>

theorem handshake_before_next_spawn:
  assumes "worker_manager_fork_workers os (Some m) = Some (e, m', tr)"
    "k < length (filter is_fork tr)"
  shows "(\<exists>rest. tr = handshakes os (cells (cpu_ids (config m))) 0 k
                        @ Sys_eventfd (eventfd_result os k)
                        # Sys_fork (fork_result os k) # rest)
         \<and> (\<forall>j < k. spawned os j)"
proof -
  from assms(1) obtain m1 where "worker_manager_fork_loop os m 0 [] = Some (e, m1, tr)"
    by (auto simp add: worker_manager_fork_workers_def split: option.splits)
  from fork_loop_trace [OF this] assms(2) show ?thesis by auto
qed

text \<open>The theorem at the run of the example pool in the parent, for the second spawn.\<close>

theorem handshake_before_next_spawn_witness:
  "worker_manager_fork_workers example_os (Some example_parent) =
     Some (PROCESS_OK,
           Some (example_parent\<lparr>workers :=
                   Points_to [\<lparr>worker_id = 0, cpu_id = 4, eventfd = - 1, pid = 100\<rparr>,
                              \<lparr>worker_id = 1, cpu_id = 6, eventfd = - 1, pid = 101\<rparr>]\<rparr>),
           [Sys_eventfd 10, Sys_fork 100, Sys_eventfd_read 10 0, Sys_close 10,
            Log_info_worker_running 0 4 100,
            Sys_eventfd 11, Sys_fork 101, Sys_eventfd_read 11 0, Sys_close 11,
            Log_info_worker_running 1 6 101,
            Log_info_running_with 2])
   \<and> (\<exists>rest. [Sys_eventfd 10, Sys_fork 100, Sys_eventfd_read 10 0, Sys_close 10,
               Log_info_worker_running 0 4 100,
               Sys_eventfd 11, Sys_fork 101, Sys_eventfd_read 11 0, Sys_close 11,
               Log_info_worker_running 1 6 101,
               Log_info_running_with 2] =
              handshakes example_os [4, 6] 0 1 @ Sys_eventfd 11 # Sys_fork 101 # rest)
   \<and> spawned example_os 0"
proof -
  have run: "worker_manager_fork_workers example_os (Some example_parent) =
     Some (PROCESS_OK,
           Some (example_parent\<lparr>workers :=
                   Points_to [\<lparr>worker_id = 0, cpu_id = 4, eventfd = - 1, pid = 100\<rparr>,
                              \<lparr>worker_id = 1, cpu_id = 6, eventfd = - 1, pid = 101\<rparr>]\<rparr>),
           [Sys_eventfd 10, Sys_fork 100, Sys_eventfd_read 10 0, Sys_close 10,
            Log_info_worker_running 0 4 100,
            Sys_eventfd 11, Sys_fork 101, Sys_eventfd_read 11 0, Sys_close 11,
            Log_info_worker_running 1 6 101,
            Log_info_running_with 2])"
    by (simp add: worker_manager_fork_workers_def worker_manager_fork_loop.simps Let_def
        example_os_def example_parent_def example_config_def)
  have second: "1 < length (filter is_fork
           [Sys_eventfd 10, Sys_fork 100, Sys_eventfd_read 10 0, Sys_close 10,
            Log_info_worker_running 0 4 100,
            Sys_eventfd 11, Sys_fork 101, Sys_eventfd_read 11 0, Sys_close 11,
            Log_info_worker_running 1 6 101,
            Log_info_running_with 2])"
    by simp
  from handshake_before_next_spawn [OF run second]
  have "(\<exists>rest. [Sys_eventfd 10, Sys_fork 100, Sys_eventfd_read 10 0, Sys_close 10,
               Log_info_worker_running 0 4 100,
               Sys_eventfd 11, Sys_fork 101, Sys_eventfd_read 11 0, Sys_close 11,
               Log_info_worker_running 1 6 101,
               Log_info_running_with 2] =
              handshakes example_os [4, 6] 0 1 @ Sys_eventfd 11 # Sys_fork 101 # rest)
        \<and> spawned example_os 0"
    by (simp add: example_parent_def example_config_def example_os_def)
  with run show ?thesis by simp
qed

end
